theory Spec2Isabelle
  imports Main
begin

section \<open>Time codec (\<open>src/lib/actions/patient-actions.ts\<close>, helper functions)\<close>

text \<open>
  The two helpers work on JavaScript strings and numbers. The primitives they call are
  modelled on the inputs the helpers meet: \<open>toString\<close> of an integer is its decimal
  numeral with a leading minus sign for negatives, \<open>padStart(2, '0')\<close> pads on the left
  to two characters, \<open>split(':')\<close> cuts at every colon, and \<open>Number\<close> reads an
  optionally signed run of decimal digits (the empty string is 0). Every other string is
  read as \<open>NaN\<close>, written \<open>None\<close>; JavaScript also accepts blanks, fractions, exponents and
  radix prefixes there, and no theorem below is about such strings.
  The remainder operator \<open>%\<close> truncates towards zero (\<open>js_rem\<close>), while
  \<open>Math.floor(minutes / 60)\<close> is the floored quotient, which is \<open>div\<close> on \<open>int\<close>.
\<close>

definition is_digit :: "char \<Rightarrow> bool" where
  "is_digit c = (48 \<le> (of_char c :: nat) \<and> (of_char c :: nat) \<le> 57)"

definition digit_val :: "char \<Rightarrow> nat" where
  "digit_val c = of_char c - 48"

definition digit_char :: "nat \<Rightarrow> char" where
  "digit_char d = char_of (48 + d)"

fun nat_digits :: "nat \<Rightarrow> string" where
  "nat_digits n = (if n < 10 then [digit_char n] else nat_digits (n div 10) @ [digit_char (n mod 10)])"

declare nat_digits.simps [simp del]

definition toString :: "int \<Rightarrow> string" where
  "toString i = (if i < 0 then CHR ''-'' # nat_digits (nat (- i)) else nat_digits (nat i))"

definition padStart2 :: "string \<Rightarrow> string" where
  "padStart2 s = replicate (2 - length s) CHR ''0'' @ s"

definition digits_val :: "string \<Rightarrow> nat" where
  "digits_val s = foldl (\<lambda>a c. 10 * a + digit_val c) 0 s"

definition Number :: "string \<Rightarrow> int option" where
  "Number s =
     (case s of
        [] \<Rightarrow> Some 0
      | c # r \<Rightarrow>
          if (c = CHR ''-'' \<or> c = CHR ''+'') \<and> r \<noteq> [] \<and> list_all is_digit r
          then Some (if c = CHR ''-'' then - int (digits_val r) else int (digits_val r))
          else if list_all is_digit s then Some (int (digits_val s))
          else None)"

fun split_colon :: "string \<Rightarrow> string list" where
  "split_colon [] = [[]]"
| "split_colon (c # cs) =
     (if c = CHR '':'' then [] # split_colon cs
      else (case split_colon cs of [] \<Rightarrow> [[c]] | x # xs \<Rightarrow> (c # x) # xs))"

definition js_rem :: "int \<Rightarrow> int \<Rightarrow> int" where
  "js_rem a b = (if a < 0 then - ((- a) mod b) else a mod b)"

text \<open>
  JavaScript numbers are doubles. On the safe integers (\<open>Number.isSafeInteger\<close>, absolute
  value at most \<open>2^53 - 1\<close>) the operations of the two helpers are exact and agree with
  the integer arithmetic used here, as long as their results are safe integers too; beyond
  that range quotients are rounded and \<open>toString\<close> changes its format. The actions pass
  minutes between 0 and 1499 only.
\<close>

definition safe_integer :: "int \<Rightarrow> bool" where
  "safe_integer n = (- 9007199254740991 \<le> n \<and> n \<le> 9007199254740991)"

text \<open>
  \<^verbatim>\<open>function minutesToTimeString(minutes: number): string {
    const hours = Math.floor(minutes / 60)
    const mins = minutes % 60
    return `${hours.toString().padStart(2, '0')}:${mins.toString().padStart(2, '0')}:00` }\<close>
\<close>

definition minutesToTimeString :: "int \<Rightarrow> string" where
  "minutesToTimeString minutes =
     (let hours = minutes div 60;
          mins = js_rem minutes 60
      in padStart2 (toString hours) @ '':'' @ padStart2 (toString mins) @ '':00'')"

text \<open>
  \<^verbatim>\<open>function timeStringToMinutes(timeString: string): number {
    const [hours, minutes] = timeString.split(':').map(Number)
    return hours * 60 + minutes }\<close>
  A missing second component is \<open>undefined\<close>, and the sum is then \<open>NaN\<close>, as it is when a
  component is not a number.
\<close>

definition timeStringToMinutes :: "string \<Rightarrow> int option" where
  "timeStringToMinutes timeString =
     (case map Number (split_colon timeString) of
        Some hours # Some minutes # _ \<Rightarrow> Some (hours * 60 + minutes)
      | _ \<Rightarrow> None)"

text \<open>
  The comparisons of JavaScript numbers: every comparison with \<open>NaN\<close> is false.
\<close>

definition js_lt :: "int option \<Rightarrow> int option \<Rightarrow> bool" where
  "js_lt a b = (case (a, b) of (Some x, Some y) \<Rightarrow> x < y | _ \<Rightarrow> False)"

definition js_le :: "int option \<Rightarrow> int option \<Rightarrow> bool" where
  "js_le a b = (case (a, b) of (Some x, Some y) \<Rightarrow> x \<le> y | _ \<Rightarrow> False)"

definition js_gt :: "int option \<Rightarrow> int option \<Rightarrow> bool" where
  "js_gt a b = js_lt b a"

definition js_ge :: "int option \<Rightarrow> int option \<Rightarrow> bool" where
  "js_ge a b = js_le b a"

text \<open>
  A wall-clock time of one day, as the \<open>TIME\<close> columns of the schema print it:
  \<open>HH:MM:SS\<close> with \<open>HH\<close> in 00..23 and \<open>MM\<close>, \<open>SS\<close> in 00..59. This is the notion the
  specification's temporal invariant and round-trip property speak about; it is not a
  function of the program.
\<close>

definition two_digits :: "char \<Rightarrow> char \<Rightarrow> nat option" where
  "two_digits a b = (if is_digit a \<and> is_digit b then Some (10 * digit_val a + digit_val b) else None)"

definition valid_wallclock :: "string \<Rightarrow> bool" where
  "valid_wallclock t =
     (case t of
        [h1, h2, c1, m1, m2, c2, s1, s2] \<Rightarrow>
          c1 = CHR '':'' \<and> c2 = CHR '':'' \<and>
          (case (two_digits h1 h2, two_digits m1 m2, two_digits s1 s2) of
             (Some h, Some m, Some s) \<Rightarrow> h < 24 \<and> m < 60 \<and> s < 60
           | _ \<Rightarrow> False)
      | _ \<Rightarrow> False)"

section \<open>Data model\<close>

datatype AppointmentStatus =
  scheduled | confirmed | in_progress | completed | cancelled | no_show

record AppointmentPrescription =
  pres_id :: string
  pres_prescription :: string

text \<open>
  The argument of \<open>createAppointment\<close>. The fields \<open>clinicId\<close> and \<open>createdBy\<close> of
  the form are overwritten from the session before validation
  (\<open>{...formData, clinicId, createdBy: user.id}\<close>) and are therefore not part of the record.
  A field that the schema gives a default is optional; \<open>None\<close> is \<open>undefined\<close>.
  Numbers are integers: the schema rejects every other number for the fields that are read.
\<close>

record CreateAppointmentFormData =
  f_patientId :: string
  f_staffIds :: "string list option"
  f_treatmentId :: "string option"
  f_date :: int
  f_time :: int
  f_complaint :: "string option"
  f_diagnosis :: "string option"
  f_notes :: "string option"
  f_involvedTeeth :: "int list option"
  f_units :: "int option"
  f_finalPrice :: "int option"
  f_paidAmount :: "int option"
  f_isDone :: "bool option"
  f_status :: "AppointmentStatus option"
  f_timer :: "int option"
  f_prescriptions :: "AppointmentPrescription list option"

text \<open>The value \<open>validationResult.data\<close> of a successful parse, defaults filled in.\<close>

record AppointmentData =
  d_clinicId :: string
  d_patientId :: string
  d_staffIds :: "string list"
  d_treatmentId :: "string option"
  d_date :: int
  d_time :: int
  d_complaint :: "string option"
  d_diagnosis :: "string option"
  d_notes :: "string option"
  d_involvedTeeth :: "int list"
  d_units :: int
  d_finalPrice :: "int option"
  d_paidAmount :: "int option"
  d_isDone :: bool
  d_status :: AppointmentStatus
  d_timer :: "int option"
  d_prescriptions :: "AppointmentPrescription list"
  d_createdBy :: string

text \<open>
  The argument of \<open>updateAppointment\<close>: \<open>AppointmentSchema.partial()\<close> without
  \<open>id\<close>, \<open>clinicId\<close>, \<open>createdAt\<close>, \<open>updatedAt\<close>. Every field is optional. The same
  record is the value of a successful parse, in which the fields that the schema gives a
  default are always present (see the validation section).
\<close>

record UpdateAppointmentFormData =
  u_patientId :: "string option"
  u_staffIds :: "string list option"
  u_treatmentId :: "string option"
  u_date :: "int option"
  u_time :: "int option"
  u_complaint :: "string option"
  u_diagnosis :: "string option"
  u_notes :: "string option"
  u_involvedTeeth :: "int list option"
  u_units :: "int option"
  u_finalPrice :: "int option"
  u_paidAmount :: "int option"
  u_isDone :: "bool option"
  u_status :: "AppointmentStatus option"
  u_timer :: "int option"
  u_prescriptions :: "AppointmentPrescription list option"
  u_createdBy :: "string option"

subsection \<open>The store\<close>

text \<open>
  The tables the two actions read and write, with the columns they touch.
  \<open>appointment_date\<close> holds a calendar day; it is represented by the number of the day
  since 1970-01-01 (UTC), of which the text \<open>YYYY-MM-DD\<close> that
  \<open>toISOString().split('T')[0]\<close> yields is a one-to-one rendering. The column
  \<open>updated_at\<close> (a clock reading) is left out.
\<close>

record appointment_row =
  ap_id :: string
  ap_clinic_id :: string
  ap_patient_id :: string
  ap_dentist_id :: string
  ap_appointment_date :: int
  ap_start_time :: string
  ap_end_time :: string
  ap_duration_minutes :: int
  ap_appointment_type :: string
  ap_chief_complaint :: "string option"
  ap_diagnosis :: "string option"
  ap_notes :: "string option"
  ap_status :: AppointmentStatus
  ap_estimated_cost :: int
  ap_actual_cost :: "int option"
  ap_created_by :: string

record appointment_staff_row =
  as_appointment_id :: string
  as_staff_id :: string
  as_role :: string

record prescription_row =
  pr_clinic_id :: string
  pr_appointment_id :: string
  pr_patient_id :: string
  pr_prescribed_by_id :: string
  pr_medication_name :: string
  pr_instructions :: string

record activity_log_row =
  al_clinic_id :: string
  al_user_id :: string
  al_action :: string
  al_resource_type :: string
  al_resource_id :: string
  al_old_values :: "appointment_row option"
  al_new_values :: "appointment_row option"
  al_description :: string

record patient_row =
  pt_id :: string
  pt_clinic_id :: string
  pt_first_name :: string
  pt_last_name :: string

record user_row =
  us_id :: string
  us_first_name :: string
  us_last_name :: string

record store =
  appointments :: "appointment_row list"
  appointment_staff :: "appointment_staff_row list"
  prescriptions :: "prescription_row list"
  activity_logs :: "activity_log_row list"
  patients :: "patient_row list"
  users :: "user_row list"

text \<open>
  The calls of the storage client that the two actions make. A call does not throw: it
  returns \<open>{ data, error }\<close>, which the caller may inspect. Which calls fail is a parameter
  \<open>fails\<close> of the actions; a failed write leaves the store as it was, and a failed read
  has no data.
\<close>

datatype storage_op =
  SelectConflicts | SelectPatient | SelectAppointment
  | InsertAppointment | InsertAppointmentStaff | InsertPrescriptions | InsertActivityLog
  | UpdateAppointmentRow | DeleteAppointmentStaff | UpdateDentist

datatype js_error = RangeError | TypeError

record AppointmentConflict =
  c_appointmentId :: string
  c_patientName :: string
  c_startTime :: string
  c_endTime :: string
  c_dentistName :: string

text \<open>
  \<open>AppointmentActionResult\<close>: \<open>Success\<close> is \<open>{success: true, data}\<close>; the other three are
  \<open>{success: false, ...}\<close> with \<open>fieldErrors\<close> (here the names of the rejected fields,
  in schema order), with \<open>conflicts\<close>, or with an error message alone.
\<close>

datatype AppointmentActionResult =
  Success appointment_row
  | ValidationFailed "string list"
  | Conflicts "AppointmentConflict list"
  | Failure string

section \<open>Validation (\<open>CreateAppointmentSchema\<close>, \<open>UpdateAppointmentSchema\<close>)\<close>

text \<open>
  The check \<open>z.string().uuid()\<close> belongs to the validation library; it is the parameter
  \<open>isUuid\<close>. The issues are listed per field, in the order of the schema:
  \<^verbatim>\<open>clinicId: z.string().uuid(),  patientId: z.string().uuid(),
  staffIds: z.array(z.string().uuid()).default([]),  treatmentId: z.string().uuid().optional(),
  date: z.number().int().positive(),  time: z.number().int().min(0).max(1439),
  involvedTeeth: z.array(z.number().min(1).max(32)).default([]),
  units: z.number().int().positive().default(1),
  status: z.enum([...]).default('scheduled'),
  prescriptions: z.array(AppointmentPrescriptionSchema).default([]),
  createdBy: z.string().uuid()\<close>
\<close>

definition default_to :: "'a \<Rightarrow> 'a option \<Rightarrow> 'a" where
  "default_to d v = (case v of None \<Rightarrow> d | Some x \<Rightarrow> x)"

definition field_issue :: "string \<Rightarrow> bool \<Rightarrow> string list" where
  "field_issue name ok = (if ok then [] else [name])"

definition optional_ok :: "('a \<Rightarrow> bool) \<Rightarrow> 'a option \<Rightarrow> bool" where
  "optional_ok p v = (case v of None \<Rightarrow> True | Some x \<Rightarrow> p x)"

definition AppointmentPrescriptionSchema_ok :: "(string \<Rightarrow> bool) \<Rightarrow> AppointmentPrescription \<Rightarrow> bool" where
  "AppointmentPrescriptionSchema_ok isUuid p = (isUuid (pres_id p) \<and> pres_prescription p \<noteq> [])"

definition CreateAppointmentSchema_issues ::
  "(string \<Rightarrow> bool) \<Rightarrow> string \<Rightarrow> string \<Rightarrow> CreateAppointmentFormData \<Rightarrow> string list" where
  "CreateAppointmentSchema_issues isUuid clinicId createdBy formData =
     field_issue ''clinicId'' (isUuid clinicId) @
     field_issue ''patientId'' (isUuid (f_patientId formData)) @
     field_issue ''staffIds'' (list_all isUuid (default_to [] (f_staffIds formData))) @
     field_issue ''treatmentId'' (optional_ok isUuid (f_treatmentId formData)) @
     field_issue ''date'' (0 < f_date formData) @
     field_issue ''time'' (0 \<le> f_time formData \<and> f_time formData \<le> 1439) @
     field_issue ''involvedTeeth''
       (list_all (\<lambda>t. 1 \<le> t \<and> t \<le> 32) (default_to [] (f_involvedTeeth formData))) @
     field_issue ''units'' (0 < default_to 1 (f_units formData)) @
     field_issue ''prescriptions''
       (list_all (AppointmentPrescriptionSchema_ok isUuid) (default_to [] (f_prescriptions formData))) @
     field_issue ''createdBy'' (isUuid createdBy)"

definition CreateAppointmentSchema_safeParse ::
  "(string \<Rightarrow> bool) \<Rightarrow> string \<Rightarrow> string \<Rightarrow> CreateAppointmentFormData \<Rightarrow> string list + AppointmentData" where
  "CreateAppointmentSchema_safeParse isUuid clinicId createdBy formData =
     (let issues = CreateAppointmentSchema_issues isUuid clinicId createdBy formData in
      if issues \<noteq> [] then Inl issues
      else Inr \<lparr> d_clinicId = clinicId,
                 d_patientId = f_patientId formData,
                 d_staffIds = default_to [] (f_staffIds formData),
                 d_treatmentId = f_treatmentId formData,
                 d_date = f_date formData,
                 d_time = f_time formData,
                 d_complaint = f_complaint formData,
                 d_diagnosis = f_diagnosis formData,
                 d_notes = f_notes formData,
                 d_involvedTeeth = default_to [] (f_involvedTeeth formData),
                 d_units = default_to 1 (f_units formData),
                 d_finalPrice = f_finalPrice formData,
                 d_paidAmount = f_paidAmount formData,
                 d_isDone = default_to False (f_isDone formData),
                 d_status = default_to scheduled (f_status formData),
                 d_timer = f_timer formData,
                 d_prescriptions = default_to [] (f_prescriptions formData),
                 d_createdBy = createdBy \<rparr>)"

definition UpdateAppointmentSchema_issues ::
  "(string \<Rightarrow> bool) \<Rightarrow> UpdateAppointmentFormData \<Rightarrow> string list" where
  "UpdateAppointmentSchema_issues isUuid formData =
     field_issue ''patientId'' (optional_ok isUuid (u_patientId formData)) @
     field_issue ''staffIds'' (optional_ok (list_all isUuid) (u_staffIds formData)) @
     field_issue ''treatmentId'' (optional_ok isUuid (u_treatmentId formData)) @
     field_issue ''date'' (optional_ok (\<lambda>d. 0 < d) (u_date formData)) @
     field_issue ''time'' (optional_ok (\<lambda>t. 0 \<le> t \<and> t \<le> 1439) (u_time formData)) @
     field_issue ''involvedTeeth''
       (optional_ok (list_all (\<lambda>t. 1 \<le> t \<and> t \<le> 32)) (u_involvedTeeth formData)) @
     field_issue ''units'' (optional_ok (\<lambda>n. 0 < n) (u_units formData)) @
     field_issue ''prescriptions''
       (optional_ok (list_all (AppointmentPrescriptionSchema_ok isUuid)) (u_prescriptions formData)) @
     field_issue ''createdBy'' (optional_ok isUuid (u_createdBy formData))"

text \<open>
  The domain module applies \<open>.omit\<close> to a refined schema
  (\<open>PaymentWithReferencesSchema.omit\<close>), which the validation library supports from its
  version 4 on only, and in that version a default is applied under \<open>.partial()\<close> as well:
  an absent \<open>staffIds\<close>, \<open>involvedTeeth\<close>, \<open>units\<close>, \<open>isDone\<close>, \<open>status\<close> or
  \<open>prescriptions\<close> is parsed to its default, the other absent fields stay absent.
\<close>

definition UpdateAppointmentSchema_defaults :: "UpdateAppointmentFormData \<Rightarrow> UpdateAppointmentFormData" where
  "UpdateAppointmentSchema_defaults formData =
     formData \<lparr> u_staffIds := Some (default_to [] (u_staffIds formData)),
                u_involvedTeeth := Some (default_to [] (u_involvedTeeth formData)),
                u_units := Some (default_to 1 (u_units formData)),
                u_isDone := Some (default_to False (u_isDone formData)),
                u_status := Some (default_to scheduled (u_status formData)),
                u_prescriptions := Some (default_to [] (u_prescriptions formData)) \<rparr>"

definition UpdateAppointmentSchema_safeParse ::
  "(string \<Rightarrow> bool) \<Rightarrow> UpdateAppointmentFormData \<Rightarrow> string list + UpdateAppointmentFormData" where
  "UpdateAppointmentSchema_safeParse isUuid formData =
     (let issues = UpdateAppointmentSchema_issues isUuid formData in
      if issues \<noteq> [] then Inl issues else Inr (UpdateAppointmentSchema_defaults formData))"

section \<open>Conflict checker (\<open>checkAppointmentConflicts\<close>)\<close>

text \<open>
  \<open>date.toISOString().split('T')[0]\<close>: the calendar day (UTC) of a time value in
  milliseconds. \<open>toISOString\<close> throws a \<open>RangeError\<close> on an invalid date, which is what
  \<open>new Date(ms)\<close> is when \<open>ms\<close> is beyond 8.64e15 in absolute value.
\<close>

definition toISODate :: "int \<Rightarrow> int option" where
  "toISODate ms =
     (if - 8640000000000000 \<le> ms \<and> ms \<le> 8640000000000000 then Some (ms div 86400000) else None)"

text \<open>
  The query:
  \<^verbatim>\<open>.from('appointments').select(...)
  .eq('clinic_id', clinicId)
  .eq('appointment_date', date.toISOString().split('T')[0])
  .neq('status', 'cancelled')
  .in('dentist_id', staffIds)
  if (excludeAppointmentId) { query = query.neq('id', excludeAppointmentId) }\<close>
  The empty string is falsy, so it excludes nothing.
\<close>

definition conflict_query ::
  "store \<Rightarrow> string \<Rightarrow> string list \<Rightarrow> int \<Rightarrow> string option \<Rightarrow> appointment_row list" where
  "conflict_query s clinicId staffIds day excludeAppointmentId =
     (let query = filter (\<lambda>a. ap_clinic_id a = clinicId \<and> ap_appointment_date a = day \<and>
                               ap_status a \<noteq> cancelled \<and> ap_dentist_id a \<in> set staffIds)
                         (appointments s)
      in case excludeAppointmentId of
           None \<Rightarrow> query
         | Some x \<Rightarrow> if x = [] then query else filter (\<lambda>a. ap_id a \<noteq> x) query)"

text \<open>
  The embedded rows \<open>patient:patients(first_name, last_name)\<close> and
  \<open>dentist:users!appointments_dentist_id_fkey(first_name, last_name)\<close>: the row the foreign
  key points to, \<open>null\<close> when there is none.
\<close>

definition join_patient :: "store \<Rightarrow> appointment_row \<Rightarrow> patient_row option" where
  "join_patient s a = find (\<lambda>p. pt_id p = ap_patient_id a) (patients s)"

definition join_dentist :: "store \<Rightarrow> appointment_row \<Rightarrow> user_row option" where
  "join_dentist s a = find (\<lambda>u. us_id u = ap_dentist_id a) (users s)"

text \<open>
  The test of the loop body:
  \<^verbatim>\<open>(newStart >= existingStart && newStart < existingEnd) ||
  (newEnd > existingStart && newEnd <= existingEnd) ||
  (newStart <= existingStart && newEnd >= existingEnd)\<close>
\<close>

definition time_overlap :: "string \<Rightarrow> string \<Rightarrow> appointment_row \<Rightarrow> bool" where
  "time_overlap startTime endTime existing =
     (let existingStart = timeStringToMinutes (ap_start_time existing);
          existingEnd = timeStringToMinutes (ap_end_time existing);
          newStart = timeStringToMinutes startTime;
          newEnd = timeStringToMinutes endTime
      in (js_ge newStart existingStart \<and> js_lt newStart existingEnd) \<or>
         (js_gt newEnd existingStart \<and> js_le newEnd existingEnd) \<or>
         (js_le newStart existingStart \<and> js_ge newEnd existingEnd))"

definition make_conflict :: "appointment_row \<Rightarrow> patient_row \<Rightarrow> user_row \<Rightarrow> AppointmentConflict" where
  "make_conflict existing patient dentist =
     \<lparr> c_appointmentId = ap_id existing,
       c_patientName = pt_first_name patient @ '' '' @ pt_last_name patient,
       c_startTime = ap_start_time existing,
       c_endTime = ap_end_time existing,
       c_dentistName = us_first_name dentist @ '' '' @ us_last_name dentist \<rparr>"

text \<open>
  \<open>existingAppointments?.forEach(existing => { if (...) conflicts.push({...}) })\<close>.
  Reading a name of a \<open>null\<close> embedded row throws a \<open>TypeError\<close>, which ends the loop.
\<close>

fun forEach_existing ::
  "store \<Rightarrow> string \<Rightarrow> string \<Rightarrow> appointment_row list \<Rightarrow> AppointmentConflict list
     \<Rightarrow> js_error + AppointmentConflict list" where
  "forEach_existing s startTime endTime [] conflicts = Inr conflicts"
| "forEach_existing s startTime endTime (existing # rest) conflicts =
     (if time_overlap startTime endTime existing then
        (case (join_patient s existing, join_dentist s existing) of
           (Some patient, Some dentist) \<Rightarrow>
             forEach_existing s startTime endTime rest
               (conflicts @ [make_conflict existing patient dentist])
         | _ \<Rightarrow> Inl TypeError)
      else forEach_existing s startTime endTime rest conflicts)"

text \<open>
  \<open>const { data: existingAppointments } = await query\<close> drops the error of the query.
  When the query fails its data is \<open>null\<close>, \<open>existingAppointments?.forEach\<close> is skipped
  and the list of conflicts stays empty. The date is rendered while the query is built,
  before it is sent.
\<close>

definition checkAppointmentConflicts ::
  "(storage_op \<Rightarrow> bool) \<Rightarrow> store \<Rightarrow> string \<Rightarrow> string list \<Rightarrow> int \<Rightarrow> string \<Rightarrow> string
     \<Rightarrow> string option \<Rightarrow> js_error + AppointmentConflict list" where
  "checkAppointmentConflicts fails s clinicId staffIds date startTime endTime excludeAppointmentId =
     (case toISODate date of
        None \<Rightarrow> Inl RangeError
      | Some day \<Rightarrow>
          if fails SelectConflicts then Inr []
          else forEach_existing s startTime endTime
                 (conflict_query s clinicId staffIds day excludeAppointmentId) [])"

text \<open>
  The candidate set as the specification words it: the appointments of the clinic on the
  date, not cancelled, sharing at least one staff identifier with the requested ones,
  without the excluded appointment. The staff identifiers of an appointment are its
  clinician (\<open>dentist_id\<close>) and the staff of its \<open>appointment_staff\<close> rows.
\<close>

definition staff_of :: "store \<Rightarrow> appointment_row \<Rightarrow> string list" where
  "staff_of s a =
     ap_dentist_id a # map as_staff_id (filter (\<lambda>r. as_appointment_id r = ap_id a) (appointment_staff s))"

definition spec_candidates ::
  "store \<Rightarrow> string \<Rightarrow> string list \<Rightarrow> int \<Rightarrow> string option \<Rightarrow> appointment_row list" where
  "spec_candidates s clinicId staffIds day excludeAppointmentId =
     filter (\<lambda>a. ap_clinic_id a = clinicId \<and> ap_appointment_date a = day \<and>
                 ap_status a \<noteq> cancelled \<and>
                 list_ex (\<lambda>x. x \<in> set staffIds) (staff_of s a) \<and>
                 excludeAppointmentId \<noteq> Some (ap_id a))
            (appointments s)"

section \<open>Booking writer\<close>

subsection \<open>Storage operations\<close>

definition select_single :: "'a list \<Rightarrow> 'a option" where
  "select_single rows = (case rows of [r] \<Rightarrow> Some r | _ \<Rightarrow> None)"

text \<open>
  The two reads that end in \<open>.single()\<close>. Their callers test \<open>error || !data\<close>, so a
  failed read and a read without exactly one row are the same to them.
\<close>

definition select_patient ::
  "(storage_op \<Rightarrow> bool) \<Rightarrow> store \<Rightarrow> string \<Rightarrow> string \<Rightarrow> patient_row option" where
  "select_patient fails s patientId clinicId =
     (if fails SelectPatient then None
      else select_single
             (filter (\<lambda>p. pt_id p = patientId \<and> pt_clinic_id p = clinicId) (patients s)))"

definition select_appointment ::
  "(storage_op \<Rightarrow> bool) \<Rightarrow> store \<Rightarrow> string \<Rightarrow> string \<Rightarrow> appointment_row option" where
  "select_appointment fails s appointmentId clinicId =
     (if fails SelectAppointment then None
      else select_single
             (filter (\<lambda>a. ap_id a = appointmentId \<and> ap_clinic_id a = clinicId) (appointments s)))"

text \<open>
  \<open>.insert({...}).select().single()\<close> returns the stored row; its \<open>id\<close> is assigned by the
  database (\<open>DEFAULT uuid_generate_v4()\<close>) and is the parameter \<open>newId\<close>.
\<close>

definition insert_appointment ::
  "(storage_op \<Rightarrow> bool) \<Rightarrow> string \<Rightarrow> appointment_row \<Rightarrow> store \<Rightarrow> appointment_row option \<times> store" where
  "insert_appointment fails newId row s =
     (if fails InsertAppointment then (None, s)
      else (let stored = row \<lparr> ap_id := newId \<rparr>
            in (Some stored, s \<lparr> appointments := appointments s @ [stored] \<rparr>)))"

definition insert_appointment_staff ::
  "(storage_op \<Rightarrow> bool) \<Rightarrow> appointment_staff_row list \<Rightarrow> store \<Rightarrow> store" where
  "insert_appointment_staff fails rows s =
     (if fails InsertAppointmentStaff then s
      else s \<lparr> appointment_staff := appointment_staff s @ rows \<rparr>)"

definition insert_prescriptions ::
  "(storage_op \<Rightarrow> bool) \<Rightarrow> prescription_row list \<Rightarrow> store \<Rightarrow> store" where
  "insert_prescriptions fails rows s =
     (if fails InsertPrescriptions then s
      else s \<lparr> prescriptions := prescriptions s @ rows \<rparr>)"

definition insert_activity_log ::
  "(storage_op \<Rightarrow> bool) \<Rightarrow> activity_log_row \<Rightarrow> store \<Rightarrow> store" where
  "insert_activity_log fails row s =
     (if fails InsertActivityLog then s
      else s \<lparr> activity_logs := activity_logs s @ [row] \<rparr>)"

definition update_appointment_row ::
  "(storage_op \<Rightarrow> bool) \<Rightarrow> string \<Rightarrow> string \<Rightarrow> (appointment_row \<Rightarrow> appointment_row) \<Rightarrow> store
     \<Rightarrow> appointment_row option \<times> store" where
  "update_appointment_row fails appointmentId clinicId updateObject s =
     (if fails UpdateAppointmentRow then (None, s)
      else (case filter (\<lambda>a. ap_id a = appointmentId \<and> ap_clinic_id a = clinicId) (appointments s) of
              [r] \<Rightarrow>
                (Some (updateObject r),
                 s \<lparr> appointments :=
                       map (\<lambda>a. if ap_id a = appointmentId \<and> ap_clinic_id a = clinicId
                                then updateObject a else a) (appointments s) \<rparr>)
            | _ \<Rightarrow> (None, s)))"

definition delete_appointment_staff :: "(storage_op \<Rightarrow> bool) \<Rightarrow> string \<Rightarrow> store \<Rightarrow> store" where
  "delete_appointment_staff fails appointmentId s =
     (if fails DeleteAppointmentStaff then s
      else s \<lparr> appointment_staff :=
                  filter (\<lambda>r. as_appointment_id r \<noteq> appointmentId) (appointment_staff s) \<rparr>)"

text \<open>
  \<open>.update({ dentist_id: updateData.staffIds[0] }).eq('id', appointmentId)\<close>. With an empty
  list the value is \<open>undefined\<close>, the key is dropped from the request body, and no column
  changes.
\<close>

definition update_dentist :: "(storage_op \<Rightarrow> bool) \<Rightarrow> string \<Rightarrow> string list \<Rightarrow> store \<Rightarrow> store" where
  "update_dentist fails appointmentId staffIds s =
     (if fails UpdateDentist then s
      else (case staffIds of
              [] \<Rightarrow> s
            | primary # _ \<Rightarrow>
                s \<lparr> appointments :=
                      map (\<lambda>a. if ap_id a = appointmentId then a \<lparr> ap_dentist_id := primary \<rparr> else a)
                          (appointments s) \<rparr>))"

subsection \<open>\<open>createAppointment\<close>\<close>

text \<open>\<open>appointmentData.staffIds[0] || user.id\<close>: the first entry unless it is missing or empty.\<close>

definition primary_or_user :: "string list \<Rightarrow> string \<Rightarrow> string" where
  "primary_or_user staffIds userId =
     (case staffIds of [] \<Rightarrow> userId | x # _ \<Rightarrow> if x = [] then userId else x)"

text \<open>The object handed to \<open>.from('appointments').insert\<close>; the database fills in \<open>id\<close>.\<close>

definition new_appointment_row ::
  "string \<Rightarrow> string \<Rightarrow> AppointmentData \<Rightarrow> int \<Rightarrow> string \<Rightarrow> string \<Rightarrow> appointment_row" where
  "new_appointment_row userId clinicId appointmentData day startTime endTime =
     \<lparr> ap_id = [],
       ap_clinic_id = clinicId,
       ap_patient_id = d_patientId appointmentData,
       ap_dentist_id = primary_or_user (d_staffIds appointmentData) userId,
       ap_appointment_date = day,
       ap_start_time = startTime,
       ap_end_time = endTime,
       ap_duration_minutes = 60,
       ap_appointment_type = ''consultation'',
       ap_chief_complaint = d_complaint appointmentData,
       ap_diagnosis = None,
       ap_notes = d_notes appointmentData,
       ap_status = d_status appointmentData,
       ap_estimated_cost = default_to 0 (d_finalPrice appointmentData),
       ap_actual_cost = None,
       ap_created_by = userId \<rparr>"

definition staff_associations :: "string \<Rightarrow> string list \<Rightarrow> appointment_staff_row list" where
  "staff_associations appointmentId staffIds =
     map (\<lambda>staffId. \<lparr> as_appointment_id = appointmentId, as_staff_id = staffId,
                      as_role = ''assistant'' \<rparr>) (tl staffIds)"

definition prescription_rows ::
  "string \<Rightarrow> string \<Rightarrow> AppointmentData \<Rightarrow> string \<Rightarrow> prescription_row list" where
  "prescription_rows userId clinicId appointmentData appointmentId =
     map (\<lambda>pres. \<lparr> pr_clinic_id = clinicId,
                   pr_appointment_id = appointmentId,
                   pr_patient_id = d_patientId appointmentData,
                   pr_prescribed_by_id = primary_or_user (d_staffIds appointmentData) userId,
                   pr_medication_name = pres_prescription pres,
                   pr_instructions = pres_prescription pres \<rparr>)
         (d_prescriptions appointmentData)"

text \<open>
  The writes after the appointment row: staff associations when there is more than one
  staff member, prescriptions when there are any, and the activity log. Each is awaited and
  its result dropped.
\<close>

definition create_cascade ::
  "(storage_op \<Rightarrow> bool) \<Rightarrow> string \<Rightarrow> string \<Rightarrow> AppointmentData \<Rightarrow> appointment_row \<Rightarrow> store \<Rightarrow> store" where
  "create_cascade fails userId clinicId appointmentData appointment s =
     (let s1 = (if 1 < length (d_staffIds appointmentData)
                then insert_appointment_staff fails
                       (staff_associations (ap_id appointment) (d_staffIds appointmentData)) s
                else s);
          s2 = (if 0 < length (d_prescriptions appointmentData)
                then insert_prescriptions fails
                       (prescription_rows userId clinicId appointmentData (ap_id appointment)) s1
                else s1)
      in insert_activity_log fails
           \<lparr> al_clinic_id = clinicId,
             al_user_id = userId,
             al_action = ''create'',
             al_resource_type = ''appointment'',
             al_resource_id = ap_id appointment,
             al_old_values = None,
             al_new_values = None,
             al_description = ''Created appointment for patient '' @ d_patientId appointmentData \<rparr>
           s2)"

text \<open>
  \<open>requireAuth\<close> yields the acting user's id and clinic, or redirects, which throws; the
  outcome is the parameter \<open>auth\<close>. Everything thrown inside the \<open>try\<close> block ends in the
  \<open>catch\<close> branch, \<open>'An unexpected error occurred'\<close>. The function returns its result and
  the store it leaves behind. The calls of \<open>revalidatePath\<close> concern the page cache and
  are not part of the store.
\<close>

definition unexpected :: AppointmentActionResult where
  "unexpected = Failure ''An unexpected error occurred''"

definition createAppointment ::
  "(string \<Rightarrow> bool) \<Rightarrow> (storage_op \<Rightarrow> bool) \<Rightarrow> (string \<times> string) option \<Rightarrow> string \<Rightarrow> store
     \<Rightarrow> CreateAppointmentFormData \<Rightarrow> AppointmentActionResult \<times> store" where
  "createAppointment isUuid fails auth newId s formData =
     (case auth of
        None \<Rightarrow> (unexpected, s)
      | Some (userId, clinicId) \<Rightarrow>
          (case CreateAppointmentSchema_safeParse isUuid clinicId userId formData of
             Inl fieldErrors \<Rightarrow> (ValidationFailed fieldErrors, s)
           | Inr appointmentData \<Rightarrow>
               (let startTime = minutesToTimeString (d_time appointmentData);
                    endTime = minutesToTimeString (d_time appointmentData + 60)
                in case checkAppointmentConflicts fails s clinicId (d_staffIds appointmentData)
                          (d_date appointmentData) startTime endTime None of
                     Inl e \<Rightarrow> (unexpected, s)
                   | Inr conflicts \<Rightarrow>
                       if 0 < length conflicts then (Conflicts conflicts, s)
                       else (case select_patient fails s (d_patientId appointmentData) clinicId of
                               None \<Rightarrow> (Failure ''Patient not found or access denied'', s)
                             | Some patient \<Rightarrow>
                                 (case toISODate (d_date appointmentData) of
                                    None \<Rightarrow> (unexpected, s)
                                  | Some day \<Rightarrow>
                                      (case insert_appointment fails newId
                                              (new_appointment_row userId clinicId appointmentData
                                                 day startTime endTime) s of
                                         (None, s') \<Rightarrow> (Failure ''Failed to create appointment'', s')
                                       | (Some appointment, s') \<Rightarrow>
                                           (Success appointment,
                                            create_cascade fails userId clinicId appointmentData
                                              appointment s')))))))"

subsection \<open>\<open>updateAppointment\<close>\<close>

text \<open>
  The entries of \<open>updateObject\<close> other than date and time, set in the order of the source;
  \<open>isDone\<close> is read after \<open>status\<close> and overrides it.
\<close>

definition set_fields :: "UpdateAppointmentFormData \<Rightarrow> appointment_row \<Rightarrow> appointment_row" where
  "set_fields updateData r =
     (let r1 = (case u_complaint updateData of None \<Rightarrow> r | Some v \<Rightarrow> r \<lparr> ap_chief_complaint := Some v \<rparr>);
          r2 = (case u_diagnosis updateData of None \<Rightarrow> r1 | Some v \<Rightarrow> r1 \<lparr> ap_diagnosis := Some v \<rparr>);
          r3 = (case u_notes updateData of None \<Rightarrow> r2 | Some v \<Rightarrow> r2 \<lparr> ap_notes := Some v \<rparr>);
          r4 = (case u_status updateData of None \<Rightarrow> r3 | Some v \<Rightarrow> r3 \<lparr> ap_status := v \<rparr>);
          r5 = (case u_finalPrice updateData of None \<Rightarrow> r4 | Some v \<Rightarrow> r4 \<lparr> ap_actual_cost := Some v \<rparr>)
      in case u_isDone updateData of
           None \<Rightarrow> r5
         | Some v \<Rightarrow> r5 \<lparr> ap_status := (if v then completed else scheduled) \<rparr>)"

text \<open>
  The block guarded by \<open>updateData.date !== undefined || updateData.time !== undefined\<close>:
  the conflict check against the other appointments and the date and time entries of
  \<open>updateObject\<close>. The result is either the early return or the entries to set.
  \<open>updateData.staffIds || [existingAppointment.dentist_id]\<close> takes the given list whenever
  there is one, an array being truthy; after the parse there always is one.
\<close>

definition reschedule ::
  "(storage_op \<Rightarrow> bool) \<Rightarrow> store \<Rightarrow> string \<Rightarrow> string \<Rightarrow> UpdateAppointmentFormData \<Rightarrow> appointment_row
     \<Rightarrow> AppointmentActionResult + (appointment_row \<Rightarrow> appointment_row)" where
  "reschedule fails s clinicId appointmentId updateData existingAppointment =
     (if u_date updateData \<noteq> None \<or> u_time updateData \<noteq> None then
        (let newDate = (case u_date updateData of
                          Some d \<Rightarrow> if d \<noteq> 0 then d
                                    else ap_appointment_date existingAppointment * 86400000
                        | None \<Rightarrow> ap_appointment_date existingAppointment * 86400000);
             newStartTime = (case u_time updateData of
                               Some t \<Rightarrow> minutesToTimeString t
                             | None \<Rightarrow> ap_start_time existingAppointment);
             newEndTime = (case u_time updateData of
                             Some t \<Rightarrow> minutesToTimeString (t + 60)
                           | None \<Rightarrow> ap_end_time existingAppointment)
         in case checkAppointmentConflicts fails s clinicId
                   (default_to [ap_dentist_id existingAppointment] (u_staffIds updateData))
                   newDate newStartTime newEndTime (Some appointmentId) of
              Inl e \<Rightarrow> Inl unexpected
            | Inr conflicts \<Rightarrow>
                if 0 < length conflicts then Inl (Conflicts conflicts)
                else (case toISODate newDate of
                        None \<Rightarrow> Inl unexpected
                      | Some day \<Rightarrow>
                          Inr (\<lambda>r. r \<lparr> ap_appointment_date := day,
                                       ap_start_time := newStartTime,
                                       ap_end_time := newEndTime \<rparr>)))
      else Inr (\<lambda>r. r))"

text \<open>
  The writes after the appointment row when \<open>staffIds\<close> is given: the associations are
  deleted, rewritten when there is more than one staff member, and the clinician is set;
  then the activity log. Each is awaited and its result dropped.
\<close>

definition update_cascade ::
  "(storage_op \<Rightarrow> bool) \<Rightarrow> string \<Rightarrow> string \<Rightarrow> string \<Rightarrow> UpdateAppointmentFormData
     \<Rightarrow> appointment_row \<Rightarrow> appointment_row \<Rightarrow> store \<Rightarrow> store" where
  "update_cascade fails userId clinicId appointmentId updateData existingAppointment
       updatedAppointment s =
     (let s3 = (case u_staffIds updateData of
                  None \<Rightarrow> s
                | Some staffIds \<Rightarrow>
                    (let s1 = delete_appointment_staff fails appointmentId s;
                         s2 = (if 1 < length staffIds
                               then insert_appointment_staff fails
                                      (staff_associations appointmentId staffIds) s1
                               else s1)
                     in update_dentist fails appointmentId staffIds s2))
      in insert_activity_log fails
           \<lparr> al_clinic_id = clinicId,
             al_user_id = userId,
             al_action = ''update'',
             al_resource_type = ''appointment'',
             al_resource_id = appointmentId,
             al_old_values = Some existingAppointment,
             al_new_values = Some updatedAppointment,
             al_description = ''Updated appointment '' @ appointmentId \<rparr>
           s3)"

definition updateAppointment ::
  "(string \<Rightarrow> bool) \<Rightarrow> (storage_op \<Rightarrow> bool) \<Rightarrow> (string \<times> string) option \<Rightarrow> store \<Rightarrow> string
     \<Rightarrow> UpdateAppointmentFormData \<Rightarrow> AppointmentActionResult \<times> store" where
  "updateAppointment isUuid fails auth s appointmentId formData =
     (case auth of
        None \<Rightarrow> (unexpected, s)
      | Some (userId, clinicId) \<Rightarrow>
          (case UpdateAppointmentSchema_safeParse isUuid formData of
             Inl fieldErrors \<Rightarrow> (ValidationFailed fieldErrors, s)
           | Inr updateData \<Rightarrow>
               (case select_appointment fails s appointmentId clinicId of
                  None \<Rightarrow> (Failure ''Appointment not found or access denied'', s)
                | Some existingAppointment \<Rightarrow>
                    (case reschedule fails s clinicId appointmentId updateData existingAppointment of
                       Inl early \<Rightarrow> (early, s)
                     | Inr setSlot \<Rightarrow>
                         (case update_appointment_row fails appointmentId clinicId
                                 (\<lambda>r. set_fields updateData (setSlot r)) s of
                            (None, s') \<Rightarrow> (Failure ''Failed to update appointment'', s')
                          | (Some updatedAppointment, s') \<Rightarrow>
                              (Success updatedAppointment,
                               update_cascade fails userId clinicId appointmentId updateData
                                 existingAppointment updatedAppointment s'))))))"

section \<open>A concrete clinic\<close>

text \<open>
  The scenario of the specification: clinic C1 has dentist D1 booked 09:00 to 10:00 on
  2024-06-01 (day 19875 since the epoch, 1717200000000 ms) for patient P1. A second dentist
  D2 and a receptionist U1 belong to the clinic as well. Identifiers are checked by their
  shape, eight, four, four, four and twelve hexadecimal digits between hyphens.
\<close>

definition is_hex :: "char \<Rightarrow> bool" where
  "is_hex c = (is_digit c \<or> (97 \<le> (of_char c :: nat) \<and> (of_char c :: nat) \<le> 102)
                 \<or> (65 \<le> (of_char c :: nat) \<and> (of_char c :: nat) \<le> 70))"

fun uuid_groups :: "nat list \<Rightarrow> string \<Rightarrow> bool" where
  "uuid_groups [] u = (u = [])"
| "uuid_groups [n] u = (length u = n \<and> list_all is_hex u)"
| "uuid_groups (n # m # ns) u =
     (length (take n u) = n \<and> list_all is_hex (take n u) \<and>
      (case drop n u of [] \<Rightarrow> False | c # rest \<Rightarrow> c = CHR ''-'' \<and> uuid_groups (m # ns) rest))"

definition uuid_shape :: "string \<Rightarrow> bool" where
  "uuid_shape u = uuid_groups [8, 4, 4, 4, 12] u"

definition clinic_C1 :: string where
  "clinic_C1 = ''c1c1c1c1-0000-4000-8000-000000000001''"

definition dentist_D1 :: string where
  "dentist_D1 = ''d1d1d1d1-0000-4000-8000-000000000001''"

definition dentist_D2 :: string where
  "dentist_D2 = ''d2d2d2d2-0000-4000-8000-000000000002''"

definition user_U1 :: string where
  "user_U1 = ''eeeeeeee-0000-4000-8000-000000000001''"

definition patient_P1 :: string where
  "patient_P1 = ''a1a1a1a1-0000-4000-8000-000000000001''"

definition appointment_A1 :: string where
  "appointment_A1 = ''b1b1b1b1-0000-4000-8000-000000000001''"

definition appointment_A2 :: string where
  "appointment_A2 = ''b2b2b2b2-0000-4000-8000-000000000002''"

definition june_first :: int where
  "june_first = 1717200000000"

definition booked :: "string \<Rightarrow> string \<Rightarrow> AppointmentStatus \<Rightarrow> string \<Rightarrow> string \<Rightarrow> appointment_row" where
  "booked appointmentId dentistId st startTime endTime =
     \<lparr> ap_id = appointmentId,
       ap_clinic_id = clinic_C1,
       ap_patient_id = patient_P1,
       ap_dentist_id = dentistId,
       ap_appointment_date = 19875,
       ap_start_time = startTime,
       ap_end_time = endTime,
       ap_duration_minutes = 60,
       ap_appointment_type = ''consultation'',
       ap_chief_complaint = None,
       ap_diagnosis = None,
       ap_notes = None,
       ap_status = st,
       ap_estimated_cost = 0,
       ap_actual_cost = None,
       ap_created_by = user_U1 \<rparr>"

definition clinic_store :: "appointment_row list \<Rightarrow> appointment_staff_row list \<Rightarrow> store" where
  "clinic_store rows associations =
     \<lparr> appointments = rows,
       appointment_staff = associations,
       prescriptions = [],
       activity_logs = [],
       patients = [\<lparr> pt_id = patient_P1, pt_clinic_id = clinic_C1,
                      pt_first_name = ''Ana'', pt_last_name = ''Reyes'' \<rparr>],
       users = [\<lparr> us_id = dentist_D1, us_first_name = ''Jose'', us_last_name = ''Cruz'' \<rparr>,
                \<lparr> us_id = dentist_D2, us_first_name = ''Maria'', us_last_name = ''Santos'' \<rparr>,
                \<lparr> us_id = user_U1, us_first_name = ''Luz'', us_last_name = ''Ramos'' \<rparr>] \<rparr>"

text \<open>A booking request for patient P1 on 2024-06-01, with everything optional left out.\<close>

definition booking_request :: "string list option \<Rightarrow> int \<Rightarrow> CreateAppointmentFormData" where
  "booking_request staffIds startMinute =
     \<lparr> f_patientId = patient_P1,
       f_staffIds = staffIds,
       f_treatmentId = None,
       f_date = june_first,
       f_time = startMinute,
       f_complaint = None,
       f_diagnosis = None,
       f_notes = None,
       f_involvedTeeth = None,
       f_units = None,
       f_finalPrice = None,
       f_paidAmount = None,
       f_isDone = None,
       f_status = None,
       f_timer = None,
       f_prescriptions = None \<rparr>"

text \<open>An update request that changes nothing but the staff.\<close>

definition staff_change :: "string list \<Rightarrow> UpdateAppointmentFormData" where
  "staff_change staffIds =
     \<lparr> u_patientId = None,
       u_staffIds = Some staffIds,
       u_treatmentId = None,
       u_date = None,
       u_time = None,
       u_complaint = None,
       u_diagnosis = None,
       u_notes = None,
       u_involvedTeeth = None,
       u_units = None,
       u_finalPrice = None,
       u_paidAmount = None,
       u_isDone = None,
       u_status = None,
       u_timer = None,
       u_prescriptions = None,
       u_createdBy = None \<rparr>"

definition no_failure :: "storage_op \<Rightarrow> bool" where
  "no_failure w = False"

text \<open>The two bookings of the scenarios, the conflict entry of the first, and the session of U1.\<close>

definition nine_to_ten :: appointment_row where
  "nine_to_ten = booked appointment_A1 dentist_D1 scheduled ''09:00:00'' ''10:00:00''"

definition half_past_nine :: "string \<Rightarrow> appointment_row" where
  "half_past_nine dentistId = booked appointment_A2 dentistId scheduled ''09:30:00'' ''10:30:00''"

definition conflict_with_nine_to_ten :: AppointmentConflict where
  "conflict_with_nine_to_ten =
     \<lparr> c_appointmentId = appointment_A1, c_patientName = ''Ana Reyes'',
       c_startTime = ''09:00:00'', c_endTime = ''10:00:00'', c_dentistName = ''Jose Cruz'' \<rparr>"

definition acting :: "(string \<times> string) option" where
  "acting = Some (user_U1, clinic_C1)"

text \<open>The booking of 09:00 with D2 recorded as assistant of D1.\<close>

definition assisted_store :: store where
  "assisted_store =
     clinic_store [nine_to_ten]
       [\<lparr> as_appointment_id = appointment_A1, as_staff_id = dentist_D2, as_role = ''assistant'' \<rparr>]"

text \<open>Two further requests: one booked as cancelled, one with an assistant and a prescription.\<close>

definition ten_to_eleven_cancelled :: CreateAppointmentFormData where
  "ten_to_eleven_cancelled = (booking_request (Some [dentist_D1]) 600) \<lparr> f_status := Some cancelled \<rparr>"

definition with_assistant_and_prescription :: CreateAppointmentFormData where
  "with_assistant_and_prescription =
     (booking_request (Some [dentist_D1, dentist_D2]) 600)
       \<lparr> f_prescriptions := Some [\<lparr> pres_id = ''f1f1f1f1-0000-4000-8000-000000000001'',
                                    pres_prescription = ''Amoxicillin 500 mg'' \<rparr>] \<rparr>"

text \<open>A store that answers the reads, accepts the appointment row and rejects every other write; and one whose conflict query fails.\<close>

definition only_appointment_insert_succeeds :: "storage_op \<Rightarrow> bool" where
  "only_appointment_insert_succeeds w =
     (w \<in> {InsertAppointmentStaff, InsertPrescriptions, InsertActivityLog,
            UpdateAppointmentRow, DeleteAppointmentStaff, UpdateDentist})"

definition conflict_query_fails :: "storage_op \<Rightarrow> bool" where
  "conflict_query_fails w = (w = SelectConflicts)"

section \<open>Lemmas about the time codec\<close>

lemma digit_val_digit_char: "d < 10 \<Longrightarrow> digit_val (digit_char d) = d"
  by (simp add: digit_val_def digit_char_def)

lemma is_digit_digit_char: "d < 10 \<Longrightarrow> is_digit (digit_char d)"
  by (simp add: is_digit_def digit_char_def)

lemma digit_char_digit_val: "is_digit c \<Longrightarrow> digit_char (digit_val c) = c"
  by (simp add: is_digit_def digit_char_def digit_val_def)

lemma digit_val_less: "is_digit c \<Longrightarrow> digit_val c < 10"
  by (auto simp add: is_digit_def digit_val_def)

lemma nat_digits_all_digit: "list_all is_digit (nat_digits n)"
proof (induction n rule: nat_digits.induct)
  case (1 n)
  show ?case
  proof (cases "n < 10")
    case True
    then show ?thesis by (simp add: nat_digits.simps [of n] is_digit_digit_char)
  next
    case False
    with 1 show ?thesis by (simp add: nat_digits.simps [of n] is_digit_digit_char)
  qed
qed

lemma nat_digits_not_Nil: "nat_digits n \<noteq> []"
  by (subst nat_digits.simps) simp

lemma digits_val_snoc: "digits_val (s @ [c]) = 10 * digits_val s + digit_val c"
  by (simp add: digits_val_def)

lemma digits_val_nat_digits: "digits_val (nat_digits n) = n"
proof (induction n rule: nat_digits.induct)
  case (1 n)
  show ?case
  proof (cases "n < 10")
    case True
    then show ?thesis by (simp add: nat_digits.simps [of n] digits_val_def digit_val_digit_char)
  next
    case False
    with 1 show ?thesis
      by (simp add: nat_digits.simps [of n] digits_val_snoc digit_val_digit_char)
  qed
qed

lemma digits_val_zero_pad: "digits_val (replicate k CHR ''0'' @ s) = digits_val s"
proof -
  have z: "digit_val CHR ''0'' = 0" by (simp add: digit_val_def)
  have "foldl (\<lambda>a c. 10 * a + digit_val c) 0 (replicate k CHR ''0'' @ s)
        = foldl (\<lambda>a c. 10 * a + digit_val c) 0 s"
    by (induction k) (simp_all add: z)
  then show ?thesis by (simp add: digits_val_def)
qed

lemma is_digit_zero: "is_digit CHR ''0''"
  by (simp add: is_digit_def)

lemma zero_pad_all_digit: "list_all is_digit s \<Longrightarrow> list_all is_digit (replicate k CHR ''0'' @ s)"
  by (auto simp add: list_all_iff is_digit_zero)

lemma digit_not_sign: "is_digit c \<Longrightarrow> c \<noteq> CHR ''-'' \<and> c \<noteq> CHR ''+''"
  by (auto simp add: is_digit_def)

lemma digit_not_colon: "is_digit c \<Longrightarrow> c \<noteq> CHR '':''"
  by (auto simp add: is_digit_def)

lemma Number_digits:
  assumes "s \<noteq> []" and "list_all is_digit s"
  shows "Number s = Some (int (digits_val s))"
proof -
  from assms obtain c r where s: "s = c # r" by (cases s) auto
  with assms have "is_digit c" by simp
  then have "c \<noteq> CHR ''-''" "c \<noteq> CHR ''+''" using digit_not_sign by auto
  with s assms show ?thesis by (simp add: Number_def)
qed

lemma Number_padStart2_toString: "Number (padStart2 (toString i)) = Some i"
proof (cases "i < 0")
  case True
  have "padStart2 (toString i) = CHR ''-'' # nat_digits (nat (- i))"
    using True nat_digits_not_Nil [of "nat (- i)"]
    by (cases "nat_digits (nat (- i))") (simp_all add: padStart2_def toString_def)
  then show ?thesis
    using True by (simp add: Number_def nat_digits_not_Nil nat_digits_all_digit digits_val_nat_digits)
next
  case False
  let ?p = "padStart2 (toString i)"
  have p: "?p = replicate (2 - length (nat_digits (nat i))) CHR ''0'' @ nat_digits (nat i)"
    using False by (simp add: padStart2_def toString_def)
  have "?p \<noteq> []" by (simp add: p nat_digits_not_Nil)
  moreover have "list_all is_digit ?p"
    unfolding p by (rule zero_pad_all_digit) (rule nat_digits_all_digit)
  ultimately have "Number ?p = Some (int (digits_val ?p))" by (rule Number_digits)
  also have "digits_val ?p = nat i" by (simp only: p digits_val_zero_pad digits_val_nat_digits)
  finally show ?thesis using False by simp
qed

lemma toString_no_colon: "CHR '':'' \<notin> set (padStart2 (toString i))"
proof -
  have d: "\<forall>c \<in> set (nat_digits n). c \<noteq> CHR '':''" for n
    using nat_digits_all_digit [of n] digit_not_colon by (auto simp add: list_all_iff)
  show ?thesis
    using d [of "nat i"] d [of "nat (- i)"] by (auto simp add: padStart2_def toString_def)
qed

lemma split_colon_append:
  "CHR '':'' \<notin> set a \<Longrightarrow> split_colon (a @ CHR '':'' # b) = a # split_colon b"
  by (induction a) auto

lemma timeStringToMinutes_minutesToTimeString:
  "timeStringToMinutes (minutesToTimeString m) = Some ((m div 60) * 60 + js_rem m 60)"
proof -
  let ?h = "padStart2 (toString (m div 60))" and ?m = "padStart2 (toString (js_rem m 60))"
  have "minutesToTimeString m = ?h @ CHR '':'' # (?m @ CHR '':'' # ''00'')"
    by (simp add: minutesToTimeString_def)
  then have "split_colon (minutesToTimeString m) = ?h # ?m # split_colon ''00''"
    by (simp only: split_colon_append [OF toString_no_colon])
  then show ?thesis
    by (simp add: timeStringToMinutes_def Number_padStart2_toString)
qed

lemma decode_encode_nonneg: "0 \<le> m \<Longrightarrow> timeStringToMinutes (minutesToTimeString m) = Some m"
  by (simp add: timeStringToMinutes_minutesToTimeString js_rem_def)

lemma js_rem_neg: "m < 0 \<Longrightarrow> (m div 60) * 60 + js_rem m 60 = (if 60 dvd m then m else m - 60)"
  unfolding js_rem_def by (auto simp add: zmod_zminus1_eq_if algebra_simps dvd_eq_mod_eq_0)

lemma valid_wallclock_shape:
  assumes "valid_wallclock t"
  obtains h1 h2 m1 m2 s1 s2 where
    "t = [h1, h2, CHR '':'', m1, m2, CHR '':'', s1, s2]"
    "is_digit h1" "is_digit h2" "is_digit m1" "is_digit m2" "is_digit s1" "is_digit s2"
    "10 * digit_val h1 + digit_val h2 < 24" "10 * digit_val m1 + digit_val m2 < 60"
    "10 * digit_val s1 + digit_val s2 < 60"
  using assms
  by (auto simp add: valid_wallclock_def two_digits_def split: list.splits option.splits if_splits)

lemma Number_two_digits:
  "is_digit a \<Longrightarrow> is_digit b \<Longrightarrow> Number [a, b] = Some (int (10 * digit_val a + digit_val b))"
  using Number_digits [of "[a, b]"] by (simp add: digits_val_def)

lemma split_colon_hms:
  assumes "is_digit h1" "is_digit h2" "is_digit m1" "is_digit m2" "is_digit s1" "is_digit s2"
  shows "split_colon [h1, h2, CHR '':'', m1, m2, CHR '':'', s1, s2] = [[h1, h2], [m1, m2], [s1, s2]]"
  using assms digit_not_colon by simp

lemma timeStringToMinutes_hms:
  assumes "is_digit h1" "is_digit h2" "is_digit m1" "is_digit m2" "is_digit s1" "is_digit s2"
  shows "timeStringToMinutes [h1, h2, CHR '':'', m1, m2, CHR '':'', s1, s2] =
           Some (int (10 * digit_val h1 + digit_val h2) * 60 + int (10 * digit_val m1 + digit_val m2))"
  unfolding timeStringToMinutes_def split_colon_hms [OF assms]
  using assms by (simp add: Number_two_digits)

lemma valid_wallclock_decode:
  assumes "valid_wallclock t"
  shows "\<exists>v. timeStringToMinutes t = Some v \<and> 0 \<le> v \<and> v \<le> 1439"
proof -
  from assms obtain h1 h2 m1 m2 s1 s2 where
    t: "t = [h1, h2, CHR '':'', m1, m2, CHR '':'', s1, s2]"
    and d: "is_digit h1" "is_digit h2" "is_digit m1" "is_digit m2" "is_digit s1" "is_digit s2"
    and b: "10 * digit_val h1 + digit_val h2 < 24" "10 * digit_val m1 + digit_val m2 < 60"
    by (rule valid_wallclock_shape)
  show ?thesis
    unfolding t timeStringToMinutes_hms [OF d] using b by simp
qed

lemma digit_char_zero: "digit_char 0 = CHR ''0''"
  by code_simp

lemma div_mod_sixty:
  fixes a b :: int
  assumes "0 \<le> b" "b < 60"
  shows "(a * 60 + b) div 60 = a" and "(a * 60 + b) mod 60 = b"
  using assms by simp_all

lemma padStart2_two_digits:
  assumes "is_digit a" "is_digit b"
  shows "padStart2 (toString (int (10 * digit_val a + digit_val b))) = [a, b]"
proof (cases "digit_val a = 0")
  case True
  then have "digit_char 0 = a" using digit_char_digit_val [OF assms(1)] by simp
  then have a: "a = CHR ''0''" using digit_char_zero by simp
  have "nat_digits (digit_val b) = [b]"
    using digit_val_less [OF assms(2)] digit_char_digit_val [OF assms(2)]
    by (simp add: nat_digits.simps [of "digit_val b"])
  then show ?thesis using True a by (simp add: padStart2_def toString_def)
next
  case False
  let ?n = "10 * digit_val a + digit_val b"
  have lb: "digit_val b < 10" and la: "digit_val a < 10"
    using digit_val_less assms by auto
  have "\<not> ?n < 10" using False by simp
  moreover have "?n div 10 = digit_val a" using lb by simp
  moreover have "?n mod 10 = digit_val b" using lb by simp
  ultimately have "nat_digits ?n = nat_digits (digit_val a) @ [digit_char (digit_val b)]"
    by (subst nat_digits.simps) simp
  also have "nat_digits (digit_val a) = [digit_char (digit_val a)]"
    using la by (simp add: nat_digits.simps [of "digit_val a"])
  finally have "nat_digits ?n = [a, b]"
    using digit_char_digit_val assms by simp
  then show ?thesis by (simp add: padStart2_def toString_def del: of_nat_add of_nat_mult)
qed

lemma minutesToTimeString_hm:
  assumes "is_digit h1" "is_digit h2" "is_digit m1" "is_digit m2"
    and "10 * digit_val m1 + digit_val m2 < 60"
  shows "minutesToTimeString (int (10 * digit_val h1 + digit_val h2) * 60 + int (10 * digit_val m1 + digit_val m2))
           = [h1, h2, CHR '':'', m1, m2, CHR '':'', CHR ''0'', CHR ''0'']"
proof -
  let ?h = "10 * digit_val h1 + digit_val h2" and ?m = "10 * digit_val m1 + digit_val m2"
  let ?v = "int ?h * 60 + int ?m"
  have m: "0 \<le> int ?m" "int ?m < 60" using assms(5) by simp_all
  have "?v div 60 = int ?h" by (rule div_mod_sixty(1) [OF m])
  moreover have "js_rem ?v 60 = int ?m"
  proof -
    have "0 \<le> ?v" by simp
    then have "js_rem ?v 60 = ?v mod 60" by (simp only: js_rem_def) simp
    also have "\<dots> = int ?m" by (rule div_mod_sixty(2) [OF m])
    finally show ?thesis .
  qed
  ultimately show ?thesis
    unfolding minutesToTimeString_def Let_def
    by (simp only: padStart2_two_digits assms) simp
qed

lemma wallclock_roundtrip:
  assumes "valid_wallclock t" and "drop 6 t = ''00''"
  shows "\<exists>m. timeStringToMinutes t = Some m \<and> minutesToTimeString m = t"
proof -
  from assms(1) obtain h1 h2 m1 m2 s1 s2 where
    t: "t = [h1, h2, CHR '':'', m1, m2, CHR '':'', s1, s2]"
    and d: "is_digit h1" "is_digit h2" "is_digit m1" "is_digit m2" "is_digit s1" "is_digit s2"
    and b: "10 * digit_val m1 + digit_val m2 < 60"
    by (rule valid_wallclock_shape)
  from assms(2) t have s: "s1 = CHR ''0''" "s2 = CHR ''0''" by simp_all
  show ?thesis
    unfolding t timeStringToMinutes_hms [OF d]
    using minutesToTimeString_hm [OF d(1-4) b] s by simp
qed

lemma out_of_range_not_wallclock:
  assumes "m < 0 \<or> 1439 < m"
  shows "\<not> valid_wallclock (minutesToTimeString m)"
proof
  assume "valid_wallclock (minutesToTimeString m)"
  then obtain v where v: "timeStringToMinutes (minutesToTimeString m) = Some v" "0 \<le> v" "v \<le> 1439"
    using valid_wallclock_decode by blast
  from v(1) have e: "v = (m div 60) * 60 + js_rem m 60"
    by (simp add: timeStringToMinutes_minutesToTimeString)
  show False
  proof (cases "m < 0")
    case True
    then show ?thesis using e v(2) js_rem_neg [of m] by (simp split: if_splits)
  next
    case False
    with assms have "1439 < m" by simp
    moreover from False have "v = m" using e by (simp add: js_rem_def)
    ultimately show ?thesis using v(3) by simp
  qed
qed

lemma padStart2_small:
  assumes "n < 100"
  shows "padStart2 (toString (int n)) = [digit_char (n div 10), digit_char (n mod 10)]"
proof (cases "n < 10")
  case True
  then have "nat_digits n = [digit_char n]" by (simp add: nat_digits.simps [of n])
  with True show ?thesis by (simp add: padStart2_def toString_def digit_char_zero)
next
  case False
  then have "nat_digits n = nat_digits (n div 10) @ [digit_char (n mod 10)]"
    by (subst nat_digits.simps) simp
  moreover have "n div 10 < 10" using assms by simp
  then have "nat_digits (n div 10) = [digit_char (n div 10)]"
    by (simp add: nat_digits.simps [of "n div 10"])
  ultimately show ?thesis by (simp add: padStart2_def toString_def)
qed

lemma two_digits_digit_char:
  assumes "a < 10" "b < 10"
  shows "two_digits (digit_char a) (digit_char b) = Some (10 * a + b)"
  using assms by (simp add: two_digits_def is_digit_digit_char digit_val_digit_char)

lemma in_range_wallclock:
  assumes "0 \<le> m" "m \<le> 1439"
  shows "valid_wallclock (minutesToTimeString m) \<and> drop 6 (minutesToTimeString m) = ''00''"
proof -
  define h where "h = nat (m div 60)"
  define k where "k = nat (m mod 60)"
  have h: "m div 60 = int h" and k: "js_rem m 60 = int k"
    using assms by (simp_all add: h_def k_def js_rem_def)
  have hb: "h < 24" using assms by (simp add: h_def)
  have kb: "k < 60" by (simp add: k_def)
  have e: "minutesToTimeString m =
             [digit_char (h div 10), digit_char (h mod 10), CHR '':'',
              digit_char (k div 10), digit_char (k mod 10), CHR '':'', CHR ''0'', CHR ''0'']"
    using hb kb by (simp add: minutesToTimeString_def h k padStart2_small)
  have z: "two_digits CHR ''0'' CHR ''0'' = Some 0"
    using two_digits_digit_char [of 0 0] by (simp add: digit_char_zero)
  have "two_digits (digit_char (h div 10)) (digit_char (h mod 10)) = Some h"
    using hb two_digits_digit_char [of "h div 10" "h mod 10"] by simp
  moreover have "two_digits (digit_char (k div 10)) (digit_char (k mod 10)) = Some k"
    using kb two_digits_digit_char [of "k div 10" "k mod 10"] by simp
  ultimately show ?thesis
    using hb kb z by (simp add: e valid_wallclock_def)
qed


section \<open>Lemmas about the conflict checker and the booking writer\<close>

lemma time_overlap_iff:
  assumes "timeStringToMinutes startTime = Some s1" "timeStringToMinutes endTime = Some e1"
    and "timeStringToMinutes (ap_start_time existing) = Some s2"
    and "timeStringToMinutes (ap_end_time existing) = Some e2"
    and "s1 < e1" "s2 < e2"
  shows "time_overlap startTime endTime existing \<longleftrightarrow> s1 < e2 \<and> s2 < e1"
  using assms by (auto simp add: time_overlap_def js_lt_def js_le_def js_gt_def js_ge_def)

lemma time_overlap_cong:
  "ap_start_time a = ap_start_time b \<Longrightarrow> ap_end_time a = ap_end_time b \<Longrightarrow>
   time_overlap startTime endTime a = time_overlap startTime endTime b"
  by (simp add: time_overlap_def)

lemma forEach_existing_append:
  "forEach_existing s startTime endTime (xs @ ys) acc =
     (case forEach_existing s startTime endTime xs acc of
        Inl e \<Rightarrow> Inl e
      | Inr acc' \<Rightarrow> forEach_existing s startTime endTime ys acc')"
  by (induction xs arbitrary: acc) (auto split: option.splits)

lemma forEach_existing_store:
  "patients s' = patients s \<Longrightarrow> users s' = users s \<Longrightarrow>
   forEach_existing s' startTime endTime rows acc = forEach_existing s startTime endTime rows acc"
  by (induction rows arbitrary: acc) (auto simp add: join_patient_def join_dentist_def split: option.splits)

lemma forEach_existing_joined:
  assumes "\<forall>r \<in> set rows. time_overlap startTime endTime r \<longrightarrow>
             (\<exists>p d. join_patient s r = Some p \<and> join_dentist s r = Some d)"
  shows "forEach_existing s startTime endTime rows acc =
           Inr (acc @ map (\<lambda>r. make_conflict r (the (join_patient s r)) (the (join_dentist s r)))
                          (filter (time_overlap startTime endTime) rows))"
  using assms by (induction rows arbitrary: acc) auto

lemma make_conflict_fields [simp]:
  "c_appointmentId (make_conflict r p d) = ap_id r"
  "c_startTime (make_conflict r p d) = ap_start_time r"
  "c_endTime (make_conflict r p d) = ap_end_time r"
  by (simp_all add: make_conflict_def)

lemma conflict_query_member:
  "r \<in> set (conflict_query s clinicId staffIds day ex) \<longleftrightarrow>
     r \<in> set (appointments s) \<and> ap_clinic_id r = clinicId \<and> ap_appointment_date r = day \<and>
     ap_status r \<noteq> cancelled \<and> ap_dentist_id r \<in> set staffIds \<and>
     (case ex of None \<Rightarrow> True | Some x \<Rightarrow> x = [] \<or> ap_id r \<noteq> x)"
  by (cases ex) (auto simp add: conflict_query_def Let_def)

lemma forEach_existing_single:
  assumes "time_overlap startTime endTime r"
    and "join_patient s r = Some p" and "join_dentist s r = Some d"
  shows "forEach_existing s startTime endTime [r] acc = Inr (acc @ [make_conflict r p d])"
  using assms by simp

lemma conflict_query_append_row:
  assumes "appointments s' = appointments s @ [row]"
  shows "conflict_query s' clinicId staffIds day None =
           conflict_query s clinicId staffIds day None @
           (if ap_clinic_id row = clinicId \<and> ap_appointment_date row = day \<and>
               ap_status row \<noteq> cancelled \<and> ap_dentist_id row \<in> set staffIds
            then [row] else [])"
  using assms by (simp add: conflict_query_def)

lemma create_cascade_tables:
  "appointments (create_cascade fails userId clinicId d row s) = appointments s"
  "patients (create_cascade fails userId clinicId d row s) = patients s"
  "users (create_cascade fails userId clinicId d row s) = users s"
  by (simp_all add: create_cascade_def Let_def insert_appointment_staff_def
        insert_prescriptions_def insert_activity_log_def)

lemma createAppointment_Success:
  assumes "createAppointment isUuid fails auth newId s formData = (Success row, s')"
  shows "\<exists>userId clinicId d day.
           auth = Some (userId, clinicId) \<and>
           CreateAppointmentSchema_safeParse isUuid clinicId userId formData = Inr d \<and>
           checkAppointmentConflicts fails s clinicId (d_staffIds d) (d_date d)
             (minutesToTimeString (d_time d)) (minutesToTimeString (d_time d + 60)) None = Inr [] \<and>
           select_patient fails s (d_patientId d) clinicId \<noteq> None \<and>
           toISODate (d_date d) = Some day \<and>
           \<not> fails InsertAppointment \<and>
           row = (new_appointment_row userId clinicId d day (minutesToTimeString (d_time d))
                    (minutesToTimeString (d_time d + 60))) \<lparr> ap_id := newId \<rparr> \<and>
           s' = create_cascade fails userId clinicId d row (s \<lparr> appointments := appointments s @ [row] \<rparr>)"
  using assms
  unfolding createAppointment_def Let_def insert_appointment_def unexpected_def
  by (auto split: option.splits sum.splits prod.splits if_splits)

lemma issues_Nil:
  assumes "CreateAppointmentSchema_issues isUuid clinicId createdBy formData = []"
  shows "list_all isUuid (default_to [] (f_staffIds formData))"
    and "0 \<le> f_time formData" and "f_time formData \<le> 1439"
  using assms
  by (simp_all add: CreateAppointmentSchema_issues_def field_issue_def split: if_splits)

lemma safeParse_Inr:
  assumes "CreateAppointmentSchema_safeParse isUuid clinicId createdBy formData = Inr d"
  shows "CreateAppointmentSchema_issues isUuid clinicId createdBy formData = []"
    and "d_staffIds d = default_to [] (f_staffIds formData)"
    and "d_time d = f_time formData"
    and "d_date d = f_date formData"
    and "d_patientId d = f_patientId formData"
    and "d_status d = default_to scheduled (f_status formData)"
  using assms
  by (auto simp add: CreateAppointmentSchema_safeParse_def Let_def split: if_splits)

lemma safeParse_valid:
  assumes "CreateAppointmentSchema_issues isUuid clinicId createdBy formData = []"
  shows "\<exists>d. CreateAppointmentSchema_safeParse isUuid clinicId createdBy formData = Inr d \<and>
             d_staffIds d = default_to [] (f_staffIds formData) \<and>
             d_time d = f_time formData \<and> d_date d = f_date formData \<and>
             d_patientId d = f_patientId formData \<and>
             d_status d = default_to scheduled (f_status formData) \<and>
             d_prescriptions d = default_to [] (f_prescriptions formData)"
  using assms by (simp add: CreateAppointmentSchema_safeParse_def)

lemma new_appointment_row_fields [simp]:
  "ap_clinic_id (new_appointment_row userId clinicId d day st en) = clinicId"
  "ap_patient_id (new_appointment_row userId clinicId d day st en) = d_patientId d"
  "ap_dentist_id (new_appointment_row userId clinicId d day st en) = primary_or_user (d_staffIds d) userId"
  "ap_appointment_date (new_appointment_row userId clinicId d day st en) = day"
  "ap_start_time (new_appointment_row userId clinicId d day st en) = st"
  "ap_end_time (new_appointment_row userId clinicId d day st en) = en"
  "ap_status (new_appointment_row userId clinicId d day st en) = d_status d"
  by (simp_all add: new_appointment_row_def)

lemma select_patient_join:
  assumes "select_patient fails s patientId clinicId \<noteq> None" and "ap_patient_id r = patientId"
    and "patients s' = patients s"
  shows "\<exists>p. join_patient s' r = Some p"
proof -
  let ?f = "filter (\<lambda>p. pt_id p = patientId \<and> pt_clinic_id p = clinicId) (patients s)"
  from assms(1) obtain p where "?f = [p]"
    by (auto simp add: select_patient_def select_single_def split: list.splits if_splits)
  then have "p \<in> set ?f" by simp
  then have "p \<in> set (patients s)" "pt_id p = patientId" by simp_all
  then have "find (\<lambda>p. pt_id p = patientId) (patients s) \<noteq> None"
    by (auto simp add: find_None_iff)
  then show ?thesis using assms(2,3) by (auto simp add: join_patient_def)
qed

lemma booked_slot_overlaps_itself:
  assumes "0 \<le> t" and "ap_start_time r = minutesToTimeString t"
    and "ap_end_time r = minutesToTimeString (t + 60)"
  shows "time_overlap (minutesToTimeString t) (minutesToTimeString (t + 60)) r"
  using assms
  by (simp add: time_overlap_def decode_encode_nonneg js_ge_def js_le_def js_lt_def)

lemma staffIds_not_an_issue:
  assumes "default_to [] (f_staffIds formData) = []"
  shows "''staffIds'' \<notin> set (CreateAppointmentSchema_issues isUuid clinicId userId formData)"
  using assms by (simp add: CreateAppointmentSchema_issues_def field_issue_def)

lemma update_cascade_appointments:
  "appointments (update_cascade fails userId clinicId appointmentId updateData existing updated s) =
     (case u_staffIds updateData of
        None \<Rightarrow> appointments s
      | Some staffIds \<Rightarrow> appointments (update_dentist fails appointmentId staffIds s))"
  by (simp add: update_cascade_def Let_def insert_activity_log_def insert_appointment_staff_def
        delete_appointment_staff_def update_dentist_def split: option.splits list.splits)

lemma reschedule_skipped:
  "u_date updateData = None \<Longrightarrow> u_time updateData = None \<Longrightarrow>
   reschedule fails s clinicId appointmentId updateData existing = Inr (\<lambda>r. r)"
  by (simp add: reschedule_def)

lemma UpdateAppointmentSchema_defaults_fields:
  "u_date (UpdateAppointmentSchema_defaults formData) = u_date formData"
  "u_time (UpdateAppointmentSchema_defaults formData) = u_time formData"
  "u_staffIds (UpdateAppointmentSchema_defaults formData) = Some (default_to [] (u_staffIds formData))"
  by (simp_all add: UpdateAppointmentSchema_defaults_def)

lemma updateAppointment_unchecked_result:
  assumes nodate: "u_date updateData = None" and notime: "u_time updateData = None"
    and auth: "auth = Some (userId, clinicId)"
    and parse: "UpdateAppointmentSchema_safeParse isUuid formData = Inr updateData"
    and ex: "select_appointment fails s appointmentId clinicId = Some existing"
  shows "updateAppointment isUuid fails auth s appointmentId formData =
           (case update_appointment_row fails appointmentId clinicId (set_fields updateData) s of
              (None, s') \<Rightarrow> (Failure ''Failed to update appointment'', s')
            | (Some updatedAppointment, s') \<Rightarrow>
                (Success updatedAppointment,
                 update_cascade fails userId clinicId appointmentId updateData existing
                   updatedAppointment s'))"
  unfolding updateAppointment_def auth option.case prod.case parse sum.case ex
    reschedule_skipped [OF nodate notime]
  by (rule refl)

lemma update_appointment_row_ok:
  assumes "select_appointment fails' s appointmentId clinicId = Some existing"
    and "\<not> fails UpdateAppointmentRow"
  shows "update_appointment_row fails appointmentId clinicId upd s =
           (Some (upd existing),
            s \<lparr> appointments :=
                  map (\<lambda>a. if ap_id a = appointmentId \<and> ap_clinic_id a = clinicId then upd a else a)
                      (appointments s) \<rparr>)"
proof -
  from assms(1)
  have "filter (\<lambda>a. ap_id a = appointmentId \<and> ap_clinic_id a = clinicId) (appointments s) = [existing]"
    unfolding select_appointment_def select_single_def
    by (simp split: list.splits if_splits)
  then show ?thesis
    unfolding update_appointment_row_def using assms(2) by simp
qed

lemma update_appointment_row_cases:
  "(\<exists>s'. update_appointment_row fails appointmentId clinicId upd s = (None, s')) \<or>
   (\<exists>r s'. update_appointment_row fails appointmentId clinicId upd s = (Some r, s'))"
  by (cases "update_appointment_row fails appointmentId clinicId upd s") (metis option.exhaust)

lemma update_dentist_sets_primary:
  assumes "\<not> fails UpdateDentist"
    and "a \<in> set (appointments (update_dentist fails appointmentId (primary # others) s))"
    and "ap_id a = appointmentId"
  shows "ap_dentist_id a = primary"
proof -
  from assms(1,2) obtain b where b: "b \<in> set (appointments s)"
    "a = (if ap_id b = appointmentId then b \<lparr> ap_dentist_id := primary \<rparr> else b)"
    unfolding update_dentist_def by auto
  show ?thesis
  proof (cases "ap_id b = appointmentId")
    case True
    with b(2) show ?thesis by simp
  next
    case False
    with b(2) assms(3) show ?thesis by simp
  qed
qed

lemma UpdateAppointmentSchema_safeParse_cases:
  "UpdateAppointmentSchema_safeParse isUuid formData = Inr (UpdateAppointmentSchema_defaults formData) \<or>
   (\<exists>e. UpdateAppointmentSchema_safeParse isUuid formData = Inl e)"
  by (simp add: UpdateAppointmentSchema_safeParse_def Let_def)

section \<open>The claims\<close>

subsection \<open>Time codec\<close>

text \<open>
  C3 (as stated): the codec is a lossless round trip in both directions, for every minute
  in 0..1439 and for every valid wall-clock time string of a day. The second direction
  fails on a time with seconds: \<open>09:30:45\<close> decodes to 570, which encodes to
  \<open>09:30:00\<close>.
\<close>

theorem codec_roundtrip_seconds_counterexample:
  "valid_wallclock ''09:30:45'' \<and>
   timeStringToMinutes ''09:30:45'' = Some 570 \<and>
   minutesToTimeString 570 = ''09:30:00'' \<and>
   minutesToTimeString 570 \<noteq> ''09:30:45''"
  by code_simp

text \<open>
  C3 (amended): for every minute \<open>m\<close> in 0..1439, decoding the encoding of \<open>m\<close> gives
  \<open>m\<close>, and the encoding is a wall-clock time of the day whose seconds are \<open>00\<close>; for every
  wall-clock time string of a day whose seconds are \<open>00\<close>, encoding its decoding gives the
  string back.
\<close>

theorem codec_roundtrip:
  "(0 \<le> m \<and> m \<le> 1439 \<longrightarrow>
      timeStringToMinutes (minutesToTimeString m) = Some m \<and>
      valid_wallclock (minutesToTimeString m) \<and> drop 6 (minutesToTimeString m) = ''00'') \<and>
   (valid_wallclock t \<and> drop 6 t = ''00'' \<longrightarrow>
      (\<exists>n. timeStringToMinutes t = Some n \<and> 0 \<le> n \<and> n \<le> 1439 \<and> minutesToTimeString n = t))"
proof (intro conjI impI)
  assume m: "0 \<le> m \<and> m \<le> 1439"
  then show "timeStringToMinutes (minutesToTimeString m) = Some m"
    by (simp add: decode_encode_nonneg)
  from m show "valid_wallclock (minutesToTimeString m)"
    by (simp add: in_range_wallclock)
  from m show "drop 6 (minutesToTimeString m) = ''00''"
    by (simp add: in_range_wallclock)
next
  assume t: "valid_wallclock t \<and> drop 6 t = ''00''"
  then obtain n where n: "timeStringToMinutes t = Some n" "minutesToTimeString n = t"
    using wallclock_roundtrip by blast
  moreover from t obtain v where "timeStringToMinutes t = Some v" "0 \<le> v" "v \<le> 1439"
    using valid_wallclock_decode by blast
  ultimately show "\<exists>n. timeStringToMinutes t = Some n \<and> 0 \<le> n \<and> n \<le> 1439 \<and> minutesToTimeString n = t"
    by auto
qed

theorem codec_roundtrip_witness:
  "(0::int) \<le> 570 \<and> (570::int) \<le> 1439 \<and>
   timeStringToMinutes (minutesToTimeString 570) = Some 570 \<and>
   valid_wallclock ''23:59:00'' \<and> drop 6 ''23:59:00'' = ''00'' \<and>
   timeStringToMinutes ''23:59:00'' = Some 1439 \<and> minutesToTimeString 1439 = ''23:59:00''"
proof -
  have w: "valid_wallclock ''23:59:00'' \<and> drop 6 ''23:59:00'' = ''00''"
    by code_simp
  have d: "timeStringToMinutes ''23:59:00'' = Some 1439"
    by code_simp
  from codec_roundtrip [of 570 "''23:59:00''"] w d
  show ?thesis by auto
qed

text \<open>
  C8 (as stated): for every integer outside 0..1439, \<open>minutesToTimeString\<close> fails with an
  out-of-range error instead of returning a time string. The function has no range check
  and no failing branch: 1440 and -1 are formatted like any other number.
\<close>

theorem minutesToTimeString_out_of_range_counterexample:
  "minutesToTimeString 1440 = ''24:00:00'' \<and> minutesToTimeString (- 1) = ''-1:-1:00''"
  by code_simp

text \<open>
  C8 (amended): \<open>minutesToTimeString\<close> checks no range. For every safe integer \<open>m\<close>
  outside 0..1439, with \<open>m - 60\<close> a safe integer too, it returns a string that is not a
  wall-clock time of a day; decoding that string gives \<open>m\<close> back when \<open>m\<close> is above 1439,
  and \<open>m\<close> or \<open>m - 60\<close> when \<open>m\<close> is negative (\<open>m\<close> exactly when 60 divides it).
  Nothing is said about numbers beyond the safe integers, where the arithmetic of the
  source rounds.
\<close>

theorem minutesToTimeString_no_range_check:
  assumes range: "m < 0 \<or> 1439 < m"
    and safe: "safe_integer m" "safe_integer (m - 60)"
  shows "\<not> valid_wallclock (minutesToTimeString m) \<and>
         timeStringToMinutes (minutesToTimeString m) =
           Some (if 0 \<le> m \<or> 60 dvd m then m else m - 60)"
proof (cases "m < 0")
  case True
  then show ?thesis
    using out_of_range_not_wallclock [OF range] js_rem_neg [of m]
    by (simp add: timeStringToMinutes_minutesToTimeString)
next
  case False
  then show ?thesis
    using out_of_range_not_wallclock [OF range] by (simp add: decode_encode_nonneg)
qed

theorem minutesToTimeString_no_range_check_witness:
  "((1499::int) < 0 \<or> (1439::int) < 1499) \<and>
   safe_integer 1499 \<and> safe_integer (1499 - 60) \<and>
   \<not> valid_wallclock (minutesToTimeString 1499) \<and>
   timeStringToMinutes (minutesToTimeString 1499) = Some 1499 \<and>
   ((- 61::int) < 0 \<or> (1439::int) < - 61) \<and>
   safe_integer (- 61) \<and> safe_integer (- 61 - 60) \<and>
   \<not> valid_wallclock (minutesToTimeString (- 61)) \<and>
   timeStringToMinutes (minutesToTimeString (- 61)) = Some (- 121)"
proof -
  have a: "(1499::int) < 0 \<or> (1439::int) < 1499" by simp
  have b: "safe_integer 1499" "safe_integer (1499 - 60)" by (simp_all add: safe_integer_def)
  have c: "(- 61::int) < 0 \<or> (1439::int) < - 61" by simp
  have d: "safe_integer (- 61)" "safe_integer (- 61 - 60)" by (simp_all add: safe_integer_def)
  from minutesToTimeString_no_range_check [OF a b] minutesToTimeString_no_range_check [OF c d] a b c d
  show ?thesis by simp
qed

subsection \<open>Conflict checker\<close>

text \<open>
  C1 (as stated): for a candidate interval \<open>[s1, e1)\<close> and an existing interval
  \<open>[s2, e2)\<close> with \<open>s1 < e1\<close> and \<open>s2 < e2\<close>, on the same date and sharing at least one
  staff identifier, \<open>checkAppointmentConflicts\<close> reports a conflict if and only if
  \<open>s1 < e2\<close> and \<open>s2 < e1\<close>. D1 is booked 09:00 to 10:00 with D2 assisting. A request
  for D2 from 09:30 to 10:30 is on the same date, shares D2 and intersects the booking, and
  the check reports nothing: the query looks for D2 in the column \<open>dentist_id\<close> only.
\<close>

theorem overlap_rule_assistant_counterexample:
  "nine_to_ten \<in> set (appointments assisted_store) \<and>
   ap_clinic_id nine_to_ten = clinic_C1 \<and>
   toISODate june_first = Some (ap_appointment_date nine_to_ten) \<and>
   ap_status nine_to_ten \<noteq> cancelled \<and>
   dentist_D2 \<in> set (staff_of assisted_store nine_to_ten) \<and>
   timeStringToMinutes ''09:30:00'' = Some 570 \<and> timeStringToMinutes ''10:30:00'' = Some 630 \<and>
   timeStringToMinutes (ap_start_time nine_to_ten) = Some 540 \<and>
   timeStringToMinutes (ap_end_time nine_to_ten) = Some 600 \<and>
   (570 :: int) < 600 \<and> (540 :: int) < 630 \<and>
   checkAppointmentConflicts no_failure assisted_store clinic_C1 [dentist_D2] june_first
     ''09:30:00'' ''10:30:00'' None = Inr []"
  by code_simp

text \<open>
  C1 (amended): for a candidate interval \<open>[s1, e1)\<close> and an existing interval
  \<open>[s2, e2)\<close> with \<open>s1 < e1\<close> and \<open>s2 < e2\<close>, where the existing appointment is one of the
  clinic on the same date, not cancelled, not the excluded one, and its clinician
  (\<open>dentist_id\<close>) is one of the requested staff identifiers, \<open>checkAppointmentConflicts\<close>
  reports a conflict with it if and only if \<open>s1 < e2\<close> and \<open>s2 < e1\<close>. The times are
  given as strings that decode to the four minutes, the query is answered, and the stored
  appointments have their patient and dentist rows, as the foreign keys require.
\<close>

theorem checkAppointmentConflicts_overlap_rule:
  assumes day: "toISODate date = Some day"
    and read: "\<not> fails SelectConflicts"
    and row: "existing \<in> set (appointments s)"
    and clinic: "ap_clinic_id existing = clinicId"
    and same_day: "ap_appointment_date existing = day"
    and active: "ap_status existing \<noteq> cancelled"
    and dentist: "ap_dentist_id existing \<in> set staffIds"
    and kept: "excludeAppointmentId \<noteq> Some (ap_id existing)"
    and joins: "\<forall>r \<in> set (appointments s). join_patient s r \<noteq> None \<and> join_dentist s r \<noteq> None"
    and new: "timeStringToMinutes startTime = Some s1" "timeStringToMinutes endTime = Some e1"
    and old: "timeStringToMinutes (ap_start_time existing) = Some s2"
             "timeStringToMinutes (ap_end_time existing) = Some e2"
    and ord: "s1 < e1" "s2 < e2"
  shows "\<exists>conflicts.
           checkAppointmentConflicts fails s clinicId staffIds date startTime endTime
             excludeAppointmentId = Inr conflicts \<and>
           ((\<exists>c \<in> set conflicts. c_appointmentId c = ap_id existing \<and>
                                  c_startTime c = ap_start_time existing \<and>
                                  c_endTime c = ap_end_time existing)
            \<longleftrightarrow> s1 < e2 \<and> s2 < e1)"
proof -
  let ?rows = "conflict_query s clinicId staffIds day excludeAppointmentId"
  let ?mk = "\<lambda>r. make_conflict r (the (join_patient s r)) (the (join_dentist s r))"
  let ?cs = "map ?mk (filter (time_overlap startTime endTime) ?rows)"
  have cand: "existing \<in> set ?rows"
    using row clinic same_day active dentist kept
    by (cases excludeAppointmentId) (simp_all add: conflict_query_member)
  have "\<forall>r \<in> set ?rows. time_overlap startTime endTime r \<longrightarrow>
          (\<exists>p d. join_patient s r = Some p \<and> join_dentist s r = Some d)"
    using joins by (auto simp add: conflict_query_member)
  then have "forEach_existing s startTime endTime ?rows [] = Inr ([] @ ?cs)"
    by (rule forEach_existing_joined)
  then have res: "checkAppointmentConflicts fails s clinicId staffIds date startTime endTime
                    excludeAppointmentId = Inr ?cs"
    using read by (simp add: checkAppointmentConflicts_def day)
  have ov: "time_overlap startTime endTime existing \<longleftrightarrow> s1 < e2 \<and> s2 < e1"
    by (rule time_overlap_iff [OF new old ord])
  have "(\<exists>c \<in> set ?cs. c_appointmentId c = ap_id existing \<and>
                         c_startTime c = ap_start_time existing \<and>
                         c_endTime c = ap_end_time existing)
        \<longleftrightarrow> time_overlap startTime endTime existing"
  proof
    assume "\<exists>c \<in> set ?cs. c_appointmentId c = ap_id existing \<and>
                         c_startTime c = ap_start_time existing \<and>
                         c_endTime c = ap_end_time existing"
    then obtain r where r: "r \<in> set ?rows" "time_overlap startTime endTime r"
      "ap_start_time r = ap_start_time existing" "ap_end_time r = ap_end_time existing"
      by auto
    from r(2) show "time_overlap startTime endTime existing"
      using time_overlap_cong [OF r(3) r(4)] by simp
  next
    assume "time_overlap startTime endTime existing"
    with cand have "?mk existing \<in> set ?cs" by simp
    then show "\<exists>c \<in> set ?cs. c_appointmentId c = ap_id existing \<and>
                         c_startTime c = ap_start_time existing \<and>
                         c_endTime c = ap_end_time existing"
      by (rule rev_bexI) simp
  qed
  with ov res show ?thesis by simp
qed

text \<open>
  The two boundary cases against an existing booking of 09:00 to 10:00: a booking of 10:00
  to 11:00 is no conflict, a booking of 09:59 to 10:59 is one.
\<close>

theorem checkAppointmentConflicts_overlap_rule_witness:
  "toISODate june_first = Some 19875 \<and>
   \<not> no_failure SelectConflicts \<and>
   nine_to_ten \<in> set (appointments (clinic_store [nine_to_ten] [])) \<and>
   ap_clinic_id nine_to_ten = clinic_C1 \<and>
   ap_appointment_date nine_to_ten = 19875 \<and>
   ap_status nine_to_ten \<noteq> cancelled \<and>
   ap_dentist_id nine_to_ten \<in> set [dentist_D1] \<and>
   None \<noteq> Some (ap_id nine_to_ten) \<and>
   timeStringToMinutes ''10:00:00'' = Some 600 \<and> timeStringToMinutes ''11:00:00'' = Some 660 \<and>
   timeStringToMinutes ''09:59:00'' = Some 599 \<and> timeStringToMinutes ''10:59:00'' = Some 659 \<and>
   timeStringToMinutes (ap_start_time nine_to_ten) = Some 540 \<and>
   timeStringToMinutes (ap_end_time nine_to_ten) = Some 600 \<and>
   (\<exists>conflicts.
      checkAppointmentConflicts no_failure (clinic_store [nine_to_ten] []) clinic_C1 [dentist_D1]
        june_first ''10:00:00'' ''11:00:00'' None = Inr conflicts \<and>
      \<not> (\<exists>c \<in> set conflicts. c_appointmentId c = ap_id nine_to_ten \<and>
                               c_startTime c = ap_start_time nine_to_ten \<and>
                               c_endTime c = ap_end_time nine_to_ten)) \<and>
   (\<exists>conflicts.
      checkAppointmentConflicts no_failure (clinic_store [nine_to_ten] []) clinic_C1 [dentist_D1]
        june_first ''09:59:00'' ''10:59:00'' None = Inr conflicts \<and>
      (\<exists>c \<in> set conflicts. c_appointmentId c = ap_id nine_to_ten \<and>
                            c_startTime c = ap_start_time nine_to_ten \<and>
                            c_endTime c = ap_end_time nine_to_ten))"
proof -
  let ?s = "clinic_store [nine_to_ten] []"
  have day: "toISODate june_first = Some 19875" by code_simp
  have read: "\<not> no_failure SelectConflicts" by (simp add: no_failure_def)
  have row: "nine_to_ten \<in> set (appointments ?s)" by (simp add: clinic_store_def)
  have clinic: "ap_clinic_id nine_to_ten = clinic_C1" by (simp add: nine_to_ten_def booked_def)
  have same_day: "ap_appointment_date nine_to_ten = 19875" by (simp add: nine_to_ten_def booked_def)
  have active: "ap_status nine_to_ten \<noteq> cancelled" by (simp add: nine_to_ten_def booked_def)
  have dentist: "ap_dentist_id nine_to_ten \<in> set [dentist_D1]" by (simp add: nine_to_ten_def booked_def)
  have kept: "None \<noteq> Some (ap_id nine_to_ten)" by simp
  have jp: "join_patient ?s nine_to_ten \<noteq> None" by code_simp
  have jd: "join_dentist ?s nine_to_ten \<noteq> None" by code_simp
  have joins: "\<forall>r \<in> set (appointments ?s). join_patient ?s r \<noteq> None \<and> join_dentist ?s r \<noteq> None"
  proof
    fix r assume "r \<in> set (appointments ?s)"
    then have "r = nine_to_ten" by (simp add: clinic_store_def)
    with jp jd show "join_patient ?s r \<noteq> None \<and> join_dentist ?s r \<noteq> None" by simp
  qed
  have t1: "timeStringToMinutes ''10:00:00'' = Some 600" by code_simp
  have t2: "timeStringToMinutes ''11:00:00'' = Some 660" by code_simp
  have t3: "timeStringToMinutes ''09:59:00'' = Some 599" by code_simp
  have t4: "timeStringToMinutes ''10:59:00'' = Some 659" by code_simp
  have o1: "timeStringToMinutes (ap_start_time nine_to_ten) = Some 540" by code_simp
  have o2: "timeStringToMinutes (ap_end_time nine_to_ten) = Some 600" by code_simp
  have touching:
    "\<exists>conflicts.
      checkAppointmentConflicts no_failure ?s clinic_C1 [dentist_D1] june_first
        ''10:00:00'' ''11:00:00'' None = Inr conflicts \<and>
      \<not> (\<exists>c \<in> set conflicts. c_appointmentId c = ap_id nine_to_ten \<and>
                               c_startTime c = ap_start_time nine_to_ten \<and>
                               c_endTime c = ap_end_time nine_to_ten)"
    using checkAppointmentConflicts_overlap_rule
            [where fails = no_failure and s = "?s" and existing = nine_to_ten and day = 19875
               and excludeAppointmentId = None and staffIds = "[dentist_D1]",
             OF day read row clinic same_day active dentist kept joins t1 t2 o1 o2]
    by simp
  have one_minute:
    "\<exists>conflicts.
      checkAppointmentConflicts no_failure ?s clinic_C1 [dentist_D1] june_first
        ''09:59:00'' ''10:59:00'' None = Inr conflicts \<and>
      (\<exists>c \<in> set conflicts. c_appointmentId c = ap_id nine_to_ten \<and>
                            c_startTime c = ap_start_time nine_to_ten \<and>
                            c_endTime c = ap_end_time nine_to_ten)"
    using checkAppointmentConflicts_overlap_rule
            [where fails = no_failure and s = "?s" and existing = nine_to_ten and day = 19875
               and excludeAppointmentId = None and staffIds = "[dentist_D1]",
             OF day read row clinic same_day active dentist kept joins t3 t4 o1 o2]
    by simp
  from day read row clinic same_day active dentist kept t1 t2 t3 t4 o1 o2 touching one_minute
  show ?thesis by blast
qed

text \<open>
  C2 (as stated): the appointments considered are exactly those of the clinic on the date,
  not cancelled, sharing at least one staff identifier with the requested ones, without
  the excluded appointment. The query compares the requested identifiers with the column
  \<open>dentist_id\<close> only. An appointment of D1 on which D2 assists shares D2 with a request
  for D2, and is not considered: the check for D2 in the same slot finds nothing.
\<close>

theorem conflict_candidates_assistant_counterexample:
  "nine_to_ten \<in> set (spec_candidates assisted_store clinic_C1 [dentist_D2] 19875 None) \<and>
   nine_to_ten \<notin> set (conflict_query assisted_store clinic_C1 [dentist_D2] 19875 None) \<and>
   checkAppointmentConflicts no_failure assisted_store clinic_C1 [dentist_D2] june_first
     ''09:00:00'' ''10:00:00'' None = Inr []"
  by code_simp

text \<open>
  C2 (amended): the appointments considered are exactly those of the clinic on the date,
  not cancelled, whose clinician (\<open>dentist_id\<close>) is one of the requested staff
  identifiers, without the appointment named by a non-empty \<open>excludeAppointmentId\<close>.
  They are the appointments of the stated set whose clinician is requested, and the whole
  stated set when no appointment has staff associations.
\<close>

theorem conflict_candidates:
  assumes "excludeAppointmentId \<noteq> Some []"
  shows "conflict_query s clinicId staffIds day excludeAppointmentId =
           filter (\<lambda>a. ap_dentist_id a \<in> set staffIds)
                  (spec_candidates s clinicId staffIds day excludeAppointmentId) \<and>
         (appointment_staff s = [] \<longrightarrow>
            conflict_query s clinicId staffIds day excludeAppointmentId =
              spec_candidates s clinicId staffIds day excludeAppointmentId)"
proof -
  have a: "conflict_query s clinicId staffIds day excludeAppointmentId =
           filter (\<lambda>a. ap_dentist_id a \<in> set staffIds)
                  (spec_candidates s clinicId staffIds day excludeAppointmentId)"
  proof (cases excludeAppointmentId)
    case None
    then show ?thesis
      by (auto simp add: conflict_query_def spec_candidates_def staff_of_def intro: filter_cong)
  next
    case (Some x)
    with assms have "x \<noteq> []" by simp
    with Some show ?thesis
      by (auto simp add: conflict_query_def spec_candidates_def staff_of_def intro: filter_cong)
  qed
  have b: "appointment_staff s = [] \<Longrightarrow>
           filter (\<lambda>a. ap_dentist_id a \<in> set staffIds)
                  (spec_candidates s clinicId staffIds day excludeAppointmentId)
           = spec_candidates s clinicId staffIds day excludeAppointmentId"
    by (auto simp add: spec_candidates_def staff_of_def intro: filter_cong)
  from a b show ?thesis by simp
qed

theorem conflict_candidates_witness:
  "(None :: string option) \<noteq> Some [] \<and>
   conflict_query assisted_store clinic_C1 [dentist_D1, dentist_D2] 19875 None =
     filter (\<lambda>a. ap_dentist_id a \<in> set [dentist_D1, dentist_D2])
       (spec_candidates assisted_store clinic_C1 [dentist_D1, dentist_D2] 19875 None) \<and>
   spec_candidates assisted_store clinic_C1 [dentist_D1, dentist_D2] 19875 None = [nine_to_ten] \<and>
   appointment_staff (clinic_store [nine_to_ten] []) = [] \<and>
   conflict_query (clinic_store [nine_to_ten] []) clinic_C1 [dentist_D1] 19875 None =
     spec_candidates (clinic_store [nine_to_ten] []) clinic_C1 [dentist_D1] 19875 None"
proof -
  have n: "(None :: string option) \<noteq> Some []" by simp
  have e: "appointment_staff (clinic_store [nine_to_ten] []) = []" by (simp add: clinic_store_def)
  have c: "spec_candidates assisted_store clinic_C1 [dentist_D1, dentist_D2] 19875 None = [nine_to_ten]"
    by code_simp
  from conflict_candidates [OF n, of assisted_store clinic_C1 "[dentist_D1, dentist_D2]" 19875]
    conflict_candidates [OF n, of "clinic_store [nine_to_ten] []" clinic_C1 "[dentist_D1]" 19875]
    n e c
  show ?thesis by blast
qed

subsection \<open>Booking writer\<close>

text \<open>
  C4: when the conflict checker returns a non-empty list for a validated request,
  \<open>createAppointment\<close> returns that list as its conflicts and leaves the store as it was:
  no appointment, staff association, prescription or activity log row is written, whatever
  the new identifier and the behaviour of the writes would have been.
\<close>

theorem createAppointment_conflict_aborts:
  assumes "auth = Some (userId, clinicId)"
    and "CreateAppointmentSchema_safeParse isUuid clinicId userId formData = Inr appointmentData"
    and "checkAppointmentConflicts fails s clinicId (d_staffIds appointmentData) (d_date appointmentData)
           (minutesToTimeString (d_time appointmentData))
           (minutesToTimeString (d_time appointmentData + 60)) None = Inr conflicts"
    and "conflicts \<noteq> []"
  shows "createAppointment isUuid fails auth newId s formData = (Conflicts conflicts, s)"
  using assms by (simp add: createAppointment_def)

theorem createAppointment_conflict_aborts_witness:
  "acting = Some (user_U1, clinic_C1) \<and>
   CreateAppointmentSchema_issues uuid_shape clinic_C1 user_U1 (booking_request (Some [dentist_D1]) 570) = [] \<and>
   checkAppointmentConflicts no_failure (clinic_store [nine_to_ten] []) clinic_C1 [dentist_D1] june_first
     (minutesToTimeString 570) (minutesToTimeString (570 + 60)) None = Inr [conflict_with_nine_to_ten] \<and>
   [conflict_with_nine_to_ten] \<noteq> [] \<and>
   createAppointment uuid_shape no_failure acting appointment_A2 (clinic_store [nine_to_ten] [])
     (booking_request (Some [dentist_D1]) 570)
     = (Conflicts [conflict_with_nine_to_ten], clinic_store [nine_to_ten] [])"
proof -
  let ?req = "booking_request (Some [dentist_D1]) 570"
  have a: "acting = Some (user_U1, clinic_C1)" by (simp add: acting_def)
  have i: "CreateAppointmentSchema_issues uuid_shape clinic_C1 user_U1 ?req = []" by code_simp
  obtain d where d: "CreateAppointmentSchema_safeParse uuid_shape clinic_C1 user_U1 ?req = Inr d"
    and f: "d_staffIds d = default_to [] (f_staffIds ?req)" "d_time d = f_time ?req"
      "d_date d = f_date ?req"
    using safeParse_valid [OF i] by blast
  have c: "checkAppointmentConflicts no_failure (clinic_store [nine_to_ten] []) clinic_C1 [dentist_D1] june_first
             (minutesToTimeString 570) (minutesToTimeString (570 + 60)) None
           = Inr [conflict_with_nine_to_ten]"
    by code_simp
  have f': "d_staffIds d = [dentist_D1]" "d_time d = 570" "d_date d = june_first"
    using f by (simp_all add: booking_request_def default_to_def)
  have c': "checkAppointmentConflicts no_failure (clinic_store [nine_to_ten] []) clinic_C1 (d_staffIds d) (d_date d)
             (minutesToTimeString (d_time d)) (minutesToTimeString (d_time d + 60)) None
           = Inr [conflict_with_nine_to_ten]"
    unfolding f' by (rule c)
  have n: "[conflict_with_nine_to_ten] \<noteq> []" by simp
  from createAppointment_conflict_aborts [OF a d c' n, of appointment_A2] a i c n
  show ?thesis by blast
qed

text \<open>
  C5 (as stated): after a successful booking, the identical request is rejected as a
  conflict with the appointment just created, and nothing is duplicated. A request booked
  with status \<open>cancelled\<close> produces a row the conflict query skips, and a request with an
  empty staff list is stored under the acting user while the query looks for nobody: in
  both cases the second submission succeeds and writes a second appointment. So it does
  when the conflict query of the second submission fails, since the error of the query is
  dropped.
\<close>

theorem resubmission_duplicates_counterexample:
  "fst (createAppointment uuid_shape no_failure acting appointment_A1 (clinic_store [] [])
          ten_to_eleven_cancelled)
     = Success (booked appointment_A1 dentist_D1 cancelled ''10:00:00'' ''11:00:00'') \<and>
   fst (createAppointment uuid_shape no_failure acting appointment_A2
          (snd (createAppointment uuid_shape no_failure acting appointment_A1 (clinic_store [] [])
                  ten_to_eleven_cancelled))
          ten_to_eleven_cancelled)
     = Success (booked appointment_A2 dentist_D1 cancelled ''10:00:00'' ''11:00:00'') \<and>
   fst (createAppointment uuid_shape no_failure acting appointment_A1 (clinic_store [] [])
          (booking_request (Some []) 600))
     = Success (booked appointment_A1 user_U1 scheduled ''10:00:00'' ''11:00:00'') \<and>
   fst (createAppointment uuid_shape no_failure acting appointment_A2
          (snd (createAppointment uuid_shape no_failure acting appointment_A1 (clinic_store [] [])
                  (booking_request (Some []) 600)))
          (booking_request (Some []) 600))
     = Success (booked appointment_A2 user_U1 scheduled ''10:00:00'' ''11:00:00'') \<and>
   fst (createAppointment uuid_shape no_failure acting appointment_A1 (clinic_store [] [])
          (booking_request (Some [dentist_D1]) 600))
     = Success (booked appointment_A1 dentist_D1 scheduled ''10:00:00'' ''11:00:00'') \<and>
   fst (createAppointment uuid_shape conflict_query_fails acting appointment_A2
          (snd (createAppointment uuid_shape no_failure acting appointment_A1 (clinic_store [] [])
                  (booking_request (Some [dentist_D1]) 600)))
          (booking_request (Some [dentist_D1]) 600))
     = Success (booked appointment_A2 dentist_D1 scheduled ''10:00:00'' ''11:00:00'')"
  by code_simp

text \<open>
  C5 (amended): after a successful booking whose staff list is not empty and whose status
  is not \<open>cancelled\<close>, the identical request, submitted against the resulting store with
  its conflict query answered, is rejected with a conflict list that names the appointment
  created by the first submission, and the store is left as it was. The identifier check
  rejects the empty string, and the first staff member has a row in \<open>users\<close>; when the
  conflict query of the first submission failed, the appointments stored before it have
  their patient and dentist rows.
\<close>

theorem resubmission_is_conflict:
  assumes first: "createAppointment isUuid fails auth newId s formData = (Success row, s')"
    and staff: "default_to [] (f_staffIds formData) \<noteq> []"
    and uuid: "\<not> isUuid []"
    and status: "default_to scheduled (f_status formData) \<noteq> cancelled"
    and dentist: "join_dentist s row \<noteq> None"
    and read1: "fails SelectConflicts \<longrightarrow>
                  (\<forall>r \<in> set (appointments s). join_patient s r \<noteq> None \<and> join_dentist s r \<noteq> None)"
    and read2: "\<not> fails' SelectConflicts"
  shows "\<exists>conflicts.
           createAppointment isUuid fails' auth newId' s' formData = (Conflicts conflicts, s') \<and>
           newId \<in> c_appointmentId ` set conflicts"
proof -
  from createAppointment_Success [OF first]
  obtain userId clinicId d day where
    auth: "auth = Some (userId, clinicId)"
    and parse: "CreateAppointmentSchema_safeParse isUuid clinicId userId formData = Inr d"
    and check: "checkAppointmentConflicts fails s clinicId (d_staffIds d) (d_date d)
                  (minutesToTimeString (d_time d)) (minutesToTimeString (d_time d + 60)) None = Inr []"
    and patient: "select_patient fails s (d_patientId d) clinicId \<noteq> None"
    and day: "toISODate (d_date d) = Some day"
    and row: "row = (new_appointment_row userId clinicId d day (minutesToTimeString (d_time d))
                       (minutesToTimeString (d_time d + 60))) \<lparr> ap_id := newId \<rparr>"
    and s': "s' = create_cascade fails userId clinicId d row (s \<lparr> appointments := appointments s @ [row] \<rparr>)"
    by blast
  let ?st = "minutesToTimeString (d_time d)" and ?en = "minutesToTimeString (d_time d + 60)"
  let ?q = "conflict_query s clinicId (d_staffIds d) day None"
  note p = safeParse_Inr [OF parse]
  note v = issues_Nil [OF p(1)]
  from staff p(2) have "d_staffIds d \<noteq> []" by simp
  then obtain x xs where xs: "d_staffIds d = x # xs" by (cases "d_staffIds d") simp_all
  from v(1) have "list_all isUuid (d_staffIds d)" by (simp only: p(2))
  then have "isUuid x" by (simp add: xs)
  with uuid have "x \<noteq> []" by auto
  with xs have dent: "ap_dentist_id row = x" by (simp add: row primary_or_user_def)
  have tables: "appointments s' = appointments s @ [row]" "patients s' = patients s" "users s' = users s"
    by (simp_all add: s' create_cascade_tables)
  have q: "conflict_query s' clinicId (d_staffIds d) day None = ?q @ [row]"
    using conflict_query_append_row [OF tables(1), of clinicId "d_staffIds d" day]
      dent xs status p(6) by (simp add: row)
  have earlier: "\<exists>acc. forEach_existing s ?st ?en ?q [] = Inr acc"
  proof (cases "fails SelectConflicts")
    case False
    with check day show ?thesis by (simp add: checkAppointmentConflicts_def)
  next
    case True
    with read1 have "\<forall>r \<in> set ?q. time_overlap ?st ?en r \<longrightarrow>
                       (\<exists>p d. join_patient s r = Some p \<and> join_dentist s r = Some d)"
      by (auto simp add: conflict_query_member)
    from forEach_existing_joined [OF this, of "[]"] show ?thesis by blast
  qed
  then obtain acc where "forEach_existing s ?st ?en ?q [] = Inr acc" ..
  then have old: "forEach_existing s' ?st ?en ?q [] = Inr acc"
    by (simp add: forEach_existing_store [OF tables(2,3)])
  have ov: "time_overlap ?st ?en row"
    using v(2) p(3) by (intro booked_slot_overlaps_itself) (simp_all add: row)
  obtain pt where pt: "join_patient s' row = Some pt"
    using select_patient_join [OF patient _ tables(2), of row] by (auto simp add: row)
  obtain dd where dd: "join_dentist s' row = Some dd"
    using dentist tables(3) by (auto simp add: join_dentist_def)
  have "forEach_existing s' ?st ?en (?q @ [row]) [] = Inr (acc @ [make_conflict row pt dd])"
    by (simp only: forEach_existing_append old sum.case forEach_existing_single [OF ov pt dd])
  then have "checkAppointmentConflicts fails' s' clinicId (d_staffIds d) (d_date d) ?st ?en None
               = Inr (acc @ [make_conflict row pt dd])"
    using read2 by (simp add: checkAppointmentConflicts_def day q)
  then have "createAppointment isUuid fails' auth newId' s' formData =
               (Conflicts (acc @ [make_conflict row pt dd]), s')"
    using auth parse by (simp add: createAppointment_def)
  moreover have "c_appointmentId (make_conflict row pt dd) = newId" by (simp add: row)
  ultimately show ?thesis by force
qed

theorem resubmission_is_conflict_witness:
  "fst (createAppointment uuid_shape no_failure acting appointment_A1 (clinic_store [] [])
          (booking_request (Some [dentist_D1]) 600))
     = Success (booked appointment_A1 dentist_D1 scheduled ''10:00:00'' ''11:00:00'') \<and>
   default_to [] (f_staffIds (booking_request (Some [dentist_D1]) 600)) \<noteq> [] \<and>
   \<not> uuid_shape [] \<and>
   default_to scheduled (f_status (booking_request (Some [dentist_D1]) 600)) \<noteq> cancelled \<and>
   join_dentist (clinic_store [] []) (booked appointment_A1 dentist_D1 scheduled ''10:00:00'' ''11:00:00'') \<noteq> None \<and>
   \<not> no_failure SelectConflicts \<and>
   (\<exists>conflicts.
      createAppointment uuid_shape no_failure acting appointment_A2
        (snd (createAppointment uuid_shape no_failure acting appointment_A1 (clinic_store [] [])
                (booking_request (Some [dentist_D1]) 600)))
        (booking_request (Some [dentist_D1]) 600)
      = (Conflicts conflicts,
         snd (createAppointment uuid_shape no_failure acting appointment_A1 (clinic_store [] [])
                (booking_request (Some [dentist_D1]) 600))) \<and>
      appointment_A1 \<in> c_appointmentId ` set conflicts)"
proof -
  let ?req = "booking_request (Some [dentist_D1]) 600"
  let ?row = "booked appointment_A1 dentist_D1 scheduled ''10:00:00'' ''11:00:00''"
  let ?first = "createAppointment uuid_shape no_failure acting appointment_A1 (clinic_store [] []) ?req"
  have r: "fst ?first = Success ?row" by code_simp
  then have first: "?first = (Success ?row, snd ?first)" by (simp add: prod_eq_iff)
  have staff: "default_to [] (f_staffIds ?req) \<noteq> []" by code_simp
  have uuid: "\<not> uuid_shape []" by code_simp
  have status: "default_to scheduled (f_status ?req) \<noteq> cancelled" by code_simp
  have dentist: "join_dentist (clinic_store [] []) ?row \<noteq> None" by code_simp
  have read: "\<not> no_failure SelectConflicts" by (simp add: no_failure_def)
  then have read1: "no_failure SelectConflicts \<longrightarrow>
      (\<forall>r \<in> set (appointments (clinic_store [] [])).
         join_patient (clinic_store [] []) r \<noteq> None \<and> join_dentist (clinic_store [] []) r \<noteq> None)"
    by simp
  from resubmission_is_conflict
         [where fails = no_failure and fails' = no_failure and s = "clinic_store [] []"
            and newId' = appointment_A2,
          OF first staff uuid status dentist read1 read]
    r staff uuid status dentist read
  show ?thesis by blast
qed

text \<open>
  C6: every appointment that \<open>createAppointment\<close> stores has a start and an end that are
  wall-clock times of the same day, for every start minute the schema accepts. At the
  accepted start minute 1400 the end is computed as \<open>minutesToTimeString (1400 + 60)\<close>,
  the string \<open>24:20:00\<close>, which is no time of the day; the row handed to the insert
  carries it, and a store that accepts the row keeps it.
\<close>

theorem end_time_past_midnight:
  "CreateAppointmentSchema_issues uuid_shape clinic_C1 user_U1 (booking_request (Some [dentist_D1]) 1400) = [] \<and>
   minutesToTimeString (1400 + 60) = ''24:20:00'' \<and>
   \<not> valid_wallclock ''24:20:00'' \<and>
   fst (createAppointment uuid_shape no_failure acting appointment_A1 (clinic_store [] [])
          (booking_request (Some [dentist_D1]) 1400))
     = Success (booked appointment_A1 dentist_D1 scheduled ''23:20:00'' ''24:20:00'') \<and>
   appointments (snd (createAppointment uuid_shape no_failure acting appointment_A1 (clinic_store [] [])
                        (booking_request (Some [dentist_D1]) 1400)))
     = [booked appointment_A1 dentist_D1 scheduled ''23:20:00'' ''24:20:00'']"
  by code_simp

text \<open>
  C7 (as stated): a request whose staff set is empty fails validation and nothing is
  written. The schema gives \<open>staffIds\<close> the default \<open>[]\<close> and no minimum length: the
  request passes, and the appointment is written with the acting user as its clinician.
\<close>

theorem empty_staff_set_counterexample:
  "default_to [] (f_staffIds (booking_request (Some []) 600)) = [] \<and>
   CreateAppointmentSchema_issues uuid_shape clinic_C1 user_U1 (booking_request (Some []) 600) = [] \<and>
   createAppointment uuid_shape no_failure acting appointment_A1 (clinic_store [] [])
     (booking_request (Some []) 600)
     = (Success (booked appointment_A1 user_U1 scheduled ''10:00:00'' ''11:00:00''),
        (clinic_store [booked appointment_A1 user_U1 scheduled ''10:00:00'' ''11:00:00''] [])
          \<lparr> activity_logs :=
               [\<lparr> al_clinic_id = clinic_C1, al_user_id = user_U1, al_action = ''create'',
                   al_resource_type = ''appointment'', al_resource_id = appointment_A1,
                   al_old_values = None, al_new_values = None,
                   al_description = ''Created appointment for patient '' @ patient_P1 \<rparr>] \<rparr>)"
  by code_simp

text \<open>
  C7 (amended): a request whose staff set is empty or absent raises no validation issue for
  \<open>staffIds\<close>. When its other fields are valid, the date is representable, the patient
  belongs to the clinic and the insert of the appointment row succeeds,
  \<open>createAppointment\<close> succeeds and stores the appointment with the acting user as its
  clinician.
\<close>

theorem empty_staff_set_accepted:
  assumes empty: "default_to [] (f_staffIds formData) = []"
  shows "''staffIds'' \<notin> set (CreateAppointmentSchema_issues isUuid clinicId userId formData) \<and>
         (auth = Some (userId, clinicId) \<and>
          CreateAppointmentSchema_issues isUuid clinicId userId formData = [] \<and>
          toISODate (f_date formData) \<noteq> None \<and>
          select_patient fails s (f_patientId formData) clinicId \<noteq> None \<and>
          \<not> fails InsertAppointment \<longrightarrow>
            (\<exists>row. fst (createAppointment isUuid fails auth newId s formData) = Success row \<and>
                   ap_dentist_id row = userId \<and> ap_id row = newId \<and>
                   row \<in> set (appointments (snd (createAppointment isUuid fails auth newId s formData)))))"
proof (intro conjI impI)
  show "''staffIds'' \<notin> set (CreateAppointmentSchema_issues isUuid clinicId userId formData)"
    by (rule staffIds_not_an_issue [OF empty])
next
  assume a: "auth = Some (userId, clinicId) \<and>
          CreateAppointmentSchema_issues isUuid clinicId userId formData = [] \<and>
          toISODate (f_date formData) \<noteq> None \<and>
          select_patient fails s (f_patientId formData) clinicId \<noteq> None \<and>
          \<not> fails InsertAppointment"
  then obtain d where d: "CreateAppointmentSchema_safeParse isUuid clinicId userId formData = Inr d"
    "d_staffIds d = default_to [] (f_staffIds formData)" "d_date d = f_date formData"
    "d_patientId d = f_patientId formData"
    using safeParse_valid by blast
  from a d(3) obtain day where day: "toISODate (d_date d) = Some day" by auto
  from a d(4) obtain p where p: "select_patient fails s (d_patientId d) clinicId = Some p" by auto
  have q: "conflict_query s clinicId [] day None = []" by (simp add: conflict_query_def)
  have c: "checkAppointmentConflicts fails s clinicId (d_staffIds d) (d_date d)
             (minutesToTimeString (d_time d)) (minutesToTimeString (d_time d + 60)) None = Inr []"
    by (simp add: checkAppointmentConflicts_def day d(2) empty q)
  let ?row = "(new_appointment_row userId clinicId d day (minutesToTimeString (d_time d))
                 (minutesToTimeString (d_time d + 60))) \<lparr> ap_id := newId \<rparr>"
  have r: "createAppointment isUuid fails auth newId s formData =
             (Success ?row, create_cascade fails userId clinicId d ?row
                              (s \<lparr> appointments := appointments s @ [?row] \<rparr>))"
    using a by (simp add: createAppointment_def d(1) c p day insert_appointment_def Let_def)
  have "ap_dentist_id ?row = userId" by (simp add: primary_or_user_def d(2) empty)
  then show "\<exists>row. fst (createAppointment isUuid fails auth newId s formData) = Success row \<and>
                   ap_dentist_id row = userId \<and> ap_id row = newId \<and>
                   row \<in> set (appointments (snd (createAppointment isUuid fails auth newId s formData)))"
    by (simp add: r create_cascade_tables)
qed

theorem empty_staff_set_accepted_witness:
  "default_to [] (f_staffIds (booking_request None 600)) = [] \<and>
   acting = Some (user_U1, clinic_C1) \<and>
   CreateAppointmentSchema_issues uuid_shape clinic_C1 user_U1 (booking_request None 600) = [] \<and>
   toISODate (f_date (booking_request None 600)) \<noteq> None \<and>
   select_patient no_failure (clinic_store [] []) (f_patientId (booking_request None 600)) clinic_C1 \<noteq> None \<and>
   \<not> no_failure InsertAppointment \<and>
   ''staffIds'' \<notin> set (CreateAppointmentSchema_issues uuid_shape clinic_C1 user_U1 (booking_request None 600)) \<and>
   (\<exists>row. fst (createAppointment uuid_shape no_failure acting appointment_A1 (clinic_store [] [])
                 (booking_request None 600)) = Success row \<and>
          ap_dentist_id row = user_U1 \<and> ap_id row = appointment_A1 \<and>
          row \<in> set (appointments (snd (createAppointment uuid_shape no_failure acting appointment_A1
                                           (clinic_store [] []) (booking_request None 600)))))"
proof -
  let ?req = "booking_request None 600"
  have e: "default_to [] (f_staffIds ?req) = []" by code_simp
  have a: "acting = Some (user_U1, clinic_C1)" by (simp add: acting_def)
  have i: "CreateAppointmentSchema_issues uuid_shape clinic_C1 user_U1 ?req = []" by code_simp
  have t: "toISODate (f_date ?req) \<noteq> None" by code_simp
  have p: "select_patient no_failure (clinic_store [] []) (f_patientId ?req) clinic_C1 \<noteq> None" by code_simp
  have w: "\<not> no_failure InsertAppointment" by (simp add: no_failure_def)
  from empty_staff_set_accepted
         [where isUuid = uuid_shape and clinicId = clinic_C1 and userId = user_U1 and auth = acting
            and s = "clinic_store [] []" and fails = no_failure and newId = appointment_A1, OF e]
    e a i t p w
  show ?thesis by blast
qed

text \<open>
  C9: \<open>createAppointment\<close> never returns success when one of its writes failed. The
  results of the three writes after the appointment row are dropped: when the inserts of
  the staff associations, the prescriptions and the activity log all fail, the function
  still returns success, and the store holds the appointment row alone.
\<close>

theorem cascade_failures_reported_as_success:
  "CreateAppointmentSchema_issues uuid_shape clinic_C1 user_U1 with_assistant_and_prescription = [] \<and>
   only_appointment_insert_succeeds InsertAppointmentStaff \<and>
   only_appointment_insert_succeeds InsertPrescriptions \<and>
   only_appointment_insert_succeeds InsertActivityLog \<and>
   createAppointment uuid_shape only_appointment_insert_succeeds acting appointment_A1
     (clinic_store [] []) with_assistant_and_prescription
     = (Success (booked appointment_A1 dentist_D1 scheduled ''10:00:00'' ''11:00:00''),
        clinic_store [booked appointment_A1 dentist_D1 scheduled ''10:00:00'' ''11:00:00''] [])"
  by code_simp

text \<open>
  C10: an update request with neither \<open>date\<close> nor \<open>time\<close> runs no conflict check, also
  when it changes \<open>staffIds\<close>. Such a request never ends in a conflict result; when it is
  valid, the appointment is found in the clinic and the update of the row succeeds, the
  update succeeds and returns the row with the parsed fields set, and, when a non-empty
  staff list is given and the clinician is written, the appointment's clinician is the
  first of the given staff, whatever else that clinician has booked.
\<close>

theorem updateAppointment_staff_change_unchecked:
  assumes nodate: "u_date formData = None" and notime: "u_time formData = None"
  shows "(\<forall>conflicts. fst (updateAppointment isUuid fails auth s appointmentId formData)
                        \<noteq> Conflicts conflicts) \<and>
         (auth = Some (userId, clinicId) \<and>
          UpdateAppointmentSchema_issues isUuid formData = [] \<and>
          select_appointment fails s appointmentId clinicId = Some existing \<and>
          \<not> fails UpdateAppointmentRow \<longrightarrow>
            fst (updateAppointment isUuid fails auth s appointmentId formData)
              = Success (set_fields (UpdateAppointmentSchema_defaults formData) existing) \<and>
            (\<forall>primary others. u_staffIds formData = Some (primary # others) \<and> \<not> fails UpdateDentist \<longrightarrow>
               (\<forall>a \<in> set (appointments (snd (updateAppointment isUuid fails auth s appointmentId formData))).
                  ap_id a = appointmentId \<longrightarrow> ap_dentist_id a = primary)))"
proof (intro conjI allI impI)
  fix conflicts
  let ?res = "updateAppointment isUuid fails auth s appointmentId formData"
  let ?data = "UpdateAppointmentSchema_defaults formData"
  have nd: "u_date ?data = None" and nt: "u_time ?data = None"
    using nodate notime by (simp_all add: UpdateAppointmentSchema_defaults_fields)
  show "fst ?res \<noteq> Conflicts conflicts"
  proof (cases auth)
    case None
    then have "?res = (unexpected, s)" unfolding updateAppointment_def by simp
    then show ?thesis by (simp add: unexpected_def)
  next
    case (Some uc)
    obtain u c where uc: "uc = (u, c)" by (cases uc)
    have auth: "auth = Some (u, c)" using Some uc by simp
    from UpdateAppointmentSchema_safeParse_cases [of isUuid formData]
    show ?thesis
    proof
      assume "\<exists>e. UpdateAppointmentSchema_safeParse isUuid formData = Inl e"
      then obtain e where e: "UpdateAppointmentSchema_safeParse isUuid formData = Inl e" ..
      have "?res = (ValidationFailed e, s)"
        unfolding updateAppointment_def auth option.case prod.case e sum.case by (rule refl)
      then show ?thesis by simp
    next
      assume parse: "UpdateAppointmentSchema_safeParse isUuid formData = Inr ?data"
      show ?thesis
      proof (cases "select_appointment fails s appointmentId c")
        case None
        have "?res = (Failure ''Appointment not found or access denied'', s)"
          unfolding updateAppointment_def auth option.case prod.case parse sum.case None
          by (rule refl)
        then show ?thesis by simp
      next
        case ex: (Some existing')
        note r = updateAppointment_unchecked_result [OF nd nt auth parse ex]
        from update_appointment_row_cases [of fails appointmentId c "set_fields ?data" s]
        show ?thesis
        proof (elim disjE exE)
          fix s' assume "update_appointment_row fails appointmentId c (set_fields ?data) s = (None, s')"
          then show ?thesis unfolding r by simp
        next
          fix row s' assume "update_appointment_row fails appointmentId c (set_fields ?data) s = (Some row, s')"
          then show ?thesis unfolding r by simp
        qed
      qed
    qed
  qed
next
  let ?data = "UpdateAppointmentSchema_defaults formData"
  have nd: "u_date ?data = None" and nt: "u_time ?data = None"
    using nodate notime by (simp_all add: UpdateAppointmentSchema_defaults_fields)
  assume a: "auth = Some (userId, clinicId) \<and>
          UpdateAppointmentSchema_issues isUuid formData = [] \<and>
          select_appointment fails s appointmentId clinicId = Some existing \<and>
          \<not> fails UpdateAppointmentRow"
  then have auth: "auth = Some (userId, clinicId)"
    and issues: "UpdateAppointmentSchema_issues isUuid formData = []"
    and ex: "select_appointment fails s appointmentId clinicId = Some existing"
    and ok: "\<not> fails UpdateAppointmentRow"
    by simp_all
  have parse: "UpdateAppointmentSchema_safeParse isUuid formData = Inr ?data"
    by (simp add: UpdateAppointmentSchema_safeParse_def issues)
  note r = updateAppointment_unchecked_result [OF nd nt auth parse ex]
  have u: "update_appointment_row fails appointmentId clinicId (set_fields ?data) s =
           (Some (set_fields ?data existing),
            s \<lparr> appointments :=
                  map (\<lambda>a. if ap_id a = appointmentId \<and> ap_clinic_id a = clinicId
                           then set_fields ?data a else a)
                      (appointments s) \<rparr>)"
    using ex ok by (rule update_appointment_row_ok)
  show "fst (updateAppointment isUuid fails auth s appointmentId formData)
          = Success (set_fields ?data existing)"
    unfolding r u by simp
  fix primary others
  assume b: "u_staffIds formData = Some (primary # others) \<and> \<not> fails UpdateDentist"
  then have st: "u_staffIds ?data = Some (primary # others)"
    by (simp add: UpdateAppointmentSchema_defaults_fields default_to_def)
  show "\<forall>a \<in> set (appointments (snd (updateAppointment isUuid fails auth s appointmentId formData))).
          ap_id a = appointmentId \<longrightarrow> ap_dentist_id a = primary"
  proof (intro ballI impI)
    fix a
    assume "a \<in> set (appointments (snd (updateAppointment isUuid fails auth s appointmentId formData)))"
      and i: "ap_id a = appointmentId"
    then have "a \<in> set (appointments (update_dentist fails appointmentId (primary # others)
                 (s \<lparr> appointments :=
                       map (\<lambda>a. if ap_id a = appointmentId \<and> ap_clinic_id a = clinicId
                                then set_fields ?data a else a) (appointments s) \<rparr>)))"
      unfolding r u by (simp add: update_cascade_appointments st)
    with b i show "ap_dentist_id a = primary"
      using update_dentist_sets_primary by blast
  qed
qed

text \<open>
  D1 is booked 09:00 to 10:00 and D2 09:30 to 10:30. Handing D2's appointment to D1
  succeeds, although the conflict check for D1 in that slot reports the booking of 09:00.
\<close>

theorem updateAppointment_staff_change_unchecked_witness:
  "u_date (staff_change [dentist_D1]) = None \<and> u_time (staff_change [dentist_D1]) = None \<and>
   acting = Some (user_U1, clinic_C1) \<and>
   UpdateAppointmentSchema_issues uuid_shape (staff_change [dentist_D1]) = [] \<and>
   select_appointment no_failure (clinic_store [nine_to_ten, half_past_nine dentist_D2] [])
     appointment_A2 clinic_C1 = Some (half_past_nine dentist_D2) \<and>
   \<not> no_failure UpdateAppointmentRow \<and> \<not> no_failure UpdateDentist \<and>
   checkAppointmentConflicts no_failure (clinic_store [nine_to_ten, half_past_nine dentist_D2] [])
     clinic_C1 [dentist_D1] june_first ''09:30:00'' ''10:30:00'' (Some appointment_A2)
     = Inr [conflict_with_nine_to_ten] \<and>
   fst (updateAppointment uuid_shape no_failure acting
          (clinic_store [nine_to_ten, half_past_nine dentist_D2] []) appointment_A2
          (staff_change [dentist_D1]))
     = Success (half_past_nine dentist_D2) \<and>
   appointments (snd (updateAppointment uuid_shape no_failure acting
          (clinic_store [nine_to_ten, half_past_nine dentist_D2] []) appointment_A2
          (staff_change [dentist_D1])))
     = [nine_to_ten, half_past_nine dentist_D1]"
proof -
  let ?s = "clinic_store [nine_to_ten, half_past_nine dentist_D2] []"
  let ?req = "staff_change [dentist_D1]"
  have d: "u_date ?req = None" and t: "u_time ?req = None" by (simp_all add: staff_change_def)
  have a: "acting = Some (user_U1, clinic_C1)" by (simp add: acting_def)
  have i: "UpdateAppointmentSchema_issues uuid_shape ?req = []" by code_simp
  have e: "select_appointment no_failure ?s appointment_A2 clinic_C1 = Some (half_past_nine dentist_D2)"
    by code_simp
  have w: "\<not> no_failure UpdateAppointmentRow" "\<not> no_failure UpdateDentist"
    by (simp_all add: no_failure_def)
  have c: "checkAppointmentConflicts no_failure ?s clinic_C1 [dentist_D1] june_first
             ''09:30:00'' ''10:30:00'' (Some appointment_A2) = Inr [conflict_with_nine_to_ten]"
    by code_simp
  have k: "set_fields (UpdateAppointmentSchema_defaults ?req) (half_past_nine dentist_D2)
             = half_past_nine dentist_D2"
    by code_simp
  have r: "fst (updateAppointment uuid_shape no_failure acting ?s appointment_A2 ?req)
             = Success (half_past_nine dentist_D2)"
    using updateAppointment_staff_change_unchecked
            [where isUuid = uuid_shape and fails = no_failure and auth = acting and s = "?s"
               and appointmentId = appointment_A2 and userId = user_U1 and clinicId = clinic_C1
               and existing = "half_past_nine dentist_D2", OF d t] a i e w(1)
    by (simp add: k)
  have f: "appointments (snd (updateAppointment uuid_shape no_failure acting ?s appointment_A2 ?req))
             = [nine_to_ten, half_past_nine dentist_D1]"
    by code_simp
  from d t a i e w c r f show ?thesis by blast
qed


end
